theory Spec2Isabelle
  imports Main "HOL-Library.Word" "HOL-Library.Sublist"
begin

section \<open>Errors\<close>

text \<open>
  Go \<^verbatim>\<open>error\<close> values. \<^verbatim>\<open>nil\<close> is \<open>None\<close> of \<open>error option\<close>.
  \<^item> \<open>Error msg\<close>: an error made by \<^verbatim>\<open>errors.New\<close> (or returned by the Docker client)
    with message \<open>msg\<close>.
  \<^item> \<open>NotFoundError msg\<close>: an error of the Docker client for which
    \<^verbatim>\<open>client.IsErrNotFound\<close> holds.
  \<^item> \<open>ErrExportedTaskStillRunning exporterCID exportedCID\<close>: the value built by
    \<^verbatim>\<open>newErrExportedTaskStillRunning(exporterCID, exportedCID)\<close>.
  \<^item> \<open>WithStack e\<close>: \<^verbatim>\<open>errors.WithStack(e)\<close> of github.com/pkg/errors, the error \<open>e\<close>
    annotated with a stack trace.
\<close>

datatype error =
    Error string
  | NotFoundError string
  | ErrExportedTaskStillRunning string string
  | WithStack error

section \<open>The retry helper\<close>

text \<open>
  \<^verbatim>\<open>func retry(times uint, interval time.Duration, f func() error) error\<close>.
  The operation \<open>f\<close> is a closure: it is modelled by state passing, \<open>f s = (err, s')\<close>.
  The trace records every invocation of \<open>f\<close> and every \<^verbatim>\<open>time.Sleep(interval)\<close>.
  \<^verbatim>\<open>times\<close> is a Go \<^verbatim>\<open>uint\<close>, 64 bits wide on the 64-bit targets: \<open>times' - 1\<close> wraps.
\<close>

datatype retry_event = Invoke | Sleep int

function retry :: "64 word \<Rightarrow> int \<Rightarrow> ('s \<Rightarrow> error option \<times> 's) \<Rightarrow> 's \<times> retry_event list
    \<Rightarrow> error option \<times> 's \<times> retry_event list" where
  "retry times' interval f (s, tr) =
     (let (err, s1) = f s;
          tr1 = tr @ [Invoke];
          times1 = (if err \<noteq> None then times' - 1 else times')
      in if times1 \<noteq> 0 \<and> err \<noteq> None
         then retry times1 interval f (s1, tr1 @ [Sleep interval])
         else (err, s1, tr1))"
  by pat_completeness auto
termination
  apply (relation "measure (\<lambda>(times, interval, f, w). unat (times - 1))")
   apply simp
  apply (clarsimp)
  subgoal for t f s e
    using unat_minus_one[of "t - 1"] unat_gt_0[of "t - 1"] by simp
  done

declare retry.simps [simp del]

text \<open>
  The state of the operation before its \<open>k\<close>-th invocation (counted from 0), the result
  of that invocation, and the trace of \<open>k + 1\<close> invocations separated by sleeps.
\<close>

primrec stateAfter :: "('s \<Rightarrow> error option \<times> 's) \<Rightarrow> 's \<Rightarrow> nat \<Rightarrow> 's" where
  "stateAfter f s 0 = s"
| "stateAfter f s (Suc k) = stateAfter f (snd (f s)) k"

definition outcome :: "('s \<Rightarrow> error option \<times> 's) \<Rightarrow> 's \<Rightarrow> nat \<Rightarrow> error option" where
  "outcome f s k = fst (f (stateAfter f s k))"

definition attempts :: "int \<Rightarrow> nat \<Rightarrow> retry_event list" where
  "attempts interval k = concat (replicate k [Invoke, Sleep interval]) @ [Invoke]"

definition invocations :: "retry_event list \<Rightarrow> nat" where
  "invocations tr = length (filter (\<lambda>e. e = Invoke) tr)"

text \<open>
  The Go function calls itself, and not in tail position (\<^verbatim>\<open>err = retry(...)\<close>, then
  \<^verbatim>\<open>return err\<close>): every failed attempt that is retried adds a stack frame, and a Go
  program whose stack is exhausted is killed. \<open>retryWithin frames\<close> is the same function
  run on a stack that holds \<open>frames\<close> nested calls of it; its result is \<open>None\<close> when the
  call does not return within them.
\<close>

fun retryWithin ::
    "nat \<Rightarrow> 64 word \<Rightarrow> int \<Rightarrow> ('s \<Rightarrow> error option \<times> 's) \<Rightarrow> 's \<times> retry_event list
      \<Rightarrow> error option option \<times> 's \<times> retry_event list" where
  "retryWithin 0 times' interval f (s, tr) = (None, s, tr)"
| "retryWithin (Suc frames) times' interval f (s, tr) =
     (let (err, s1) = f s;
          tr1 = tr @ [Invoke];
          times1 = (if err \<noteq> None then times' - 1 else times')
      in if times1 \<noteq> 0 \<and> err \<noteq> None
         then retryWithin frames times1 interval f (s1, tr1 @ [Sleep interval])
         else (Some err, s1, tr1))"

section \<open>Strings\<close>

text \<open>
  \<^verbatim>\<open>strings.TrimLeft(s, cutset)\<close> drops every leading character of \<open>s\<close> that occurs in
  \<open>cutset\<close>; \<^verbatim>\<open>strings.HasPrefix\<close> and \<^verbatim>\<open>strings.Contains\<close> test for a prefix and for a
  contiguous substring; \<^verbatim>\<open>strings.Join\<close> concatenates with a separator.
\<close>

fun TrimLeft :: "string \<Rightarrow> string \<Rightarrow> string" where
  "TrimLeft [] cutset = []"
| "TrimLeft (c # s) cutset = (if c \<in> set cutset then TrimLeft s cutset else c # s)"

fun HasPrefix :: "string \<Rightarrow> string \<Rightarrow> bool" where
  "HasPrefix s [] = True"
| "HasPrefix [] (p # ps) = False"
| "HasPrefix (c # s) (p # ps) = (c = p \<and> HasPrefix s ps)"

fun Contains :: "string \<Rightarrow> string \<Rightarrow> bool" where
  "Contains [] substr = (substr = [])"
| "Contains (c # s) substr = (HasPrefix (c # s) substr \<or> Contains s substr)"

fun Join :: "string list \<Rightarrow> string \<Rightarrow> string" where
  "Join [] sep = []"
| "Join [x] sep = x"
| "Join (x # y # xs) sep = x @ sep @ Join (y # xs) sep"

section \<open>Error messages and classification\<close>

text \<open>
  Modelled from the spec: \<^verbatim>\<open>newErrExportedTaskStillRunning\<close> and
  \<^verbatim>\<open>IsErrExportedTaskStillRunning\<close> are declared in a file of the package that is not
  among the sources. The "still running" error names the sidecar id and the monitored
  container id, and the predicate holds for these errors and for no other.
\<close>

definition newErrExportedTaskStillRunning :: "string \<Rightarrow> string \<Rightarrow> error" where
  "newErrExportedTaskStillRunning exporterCID exportedCID =
     ErrExportedTaskStillRunning exporterCID exportedCID"

fun IsErrExportedTaskStillRunning :: "error \<Rightarrow> bool" where
  "IsErrExportedTaskStillRunning (ErrExportedTaskStillRunning exporterCID exportedCID) = True"
| "IsErrExportedTaskStillRunning e = False"

text \<open>
  \<^verbatim>\<open>err.Error()\<close> and \<^verbatim>\<open>errors.Cause(err)\<close>. \<^verbatim>\<open>errors.WithStack\<close> keeps the message and the
  cause of the error it wraps. The message of the "still running" error is the one that
  \<^verbatim>\<open>TestCleanupExporter\<close> expects.
\<close>

fun errorMsg :: "error \<Rightarrow> string" where
  "errorMsg (Error msg) = msg"
| "errorMsg (NotFoundError msg) = msg"
| "errorMsg (ErrExportedTaskStillRunning exporterCID exportedCID) =
     ''Exporter \"'' @ exporterCID @ ''\" can't be stopped, exported container \"''
       @ exportedCID @ ''\" still running.''"
| "errorMsg (WithStack e) = errorMsg e"


text \<open>\<^verbatim>\<open>client.IsErrNotFound\<close> of the Docker client.\<close>

fun IsErrNotFound :: "error \<Rightarrow> bool" where
  "IsErrNotFound (NotFoundError msg) = True"
| "IsErrNotFound e = False"

section \<open>The Docker backend: data\<close>

definition LABEL_EXPORTER :: string where
  "LABEL_EXPORTER = ''autoexporter.exporter''"

definition LABEL_EXPORTED_ID :: string where
  "LABEL_EXPORTED_ID = ''autoexporter.exported.id''"

definition LABEL_EXPORTED_NAME :: string where
  "LABEL_EXPORTED_NAME = ''autoexporter.exported.name''"

definition stepPullImage :: string where "stepPullImage = ''pullImage''"
definition stepCreate :: string where "stepCreate = ''create''"
definition stepConnect :: string where "stepConnect = ''connect''"
definition stepStart :: string where "stepStart = ''start''"
definition stepFinished :: string where "stepFinished = ''finished''"

text \<open>
  A Go \<^verbatim>\<open>map[string]string\<close> is a map \<open>string \<rightharpoonup> string\<close>; reading a missing key gives
  the empty string. Record fields that would share a name carry the record as a prefix.
\<close>

type_synonym labels = "string \<rightharpoonup> string"

definition index :: "labels \<Rightarrow> string \<Rightarrow> string" where
  "index m k = (case m k of None \<Rightarrow> [] | Some v \<Rightarrow> v)"

text \<open>\<^verbatim>\<open>models.TaskToExport{ID, Name, Labels}\<close> and \<^verbatim>\<open>models.Exporter\<close>.\<close>

record TaskToExport =
  task_ID :: string
  task_Name :: string
  task_Labels :: labels

record Exporter =
  Name :: string
  ExporterType :: string
  Image :: string
  Cmd :: "string list"
  EnvVars :: "string list"
  Port :: string
  ExportedTask :: TaskToExport

text \<open>The parts of the Docker API types that the backend reads or writes.\<close>

record Container =
  container_ID :: string
  Names :: "string list"
  container_Labels :: labels

record ContainerState =
  Running :: bool

text \<open>
  \<^verbatim>\<open>types.ContainerJSON\<close>: \<open>State\<close> is reached through pointers
  (\<^verbatim>\<open>*ContainerJSONBase\<close>, \<^verbatim>\<open>*ContainerState\<close>), \<open>None\<close> when one of them is \<^verbatim>\<open>nil\<close>.
\<close>

record ContainerJSON =
  json_ID :: string
  json_Name :: string
  State :: "ContainerState option"
  json_Labels :: labels

record Config =
  User :: string
  config_Cmd :: "string list"
  config_Image :: string
  Env :: "string list"
  config_Labels :: labels

record RestartPolicy =
  policy_Name :: string
  MaximumRetryCount :: int

record HostConfig =
  NetworkMode :: string
  RestartPolicy :: RestartPolicy

record ContainerCreateCreatedBody =
  created_ID :: string
  Warnings :: "string list"

record ContainerListOptions =
  All :: bool
  Filters :: "(string \<times> string) list"

text \<open>
  Every call the backend issues to a collaborator (the Docker client, the exporter
  finder), with its arguments. A run returns the calls it issued, in order.
\<close>

datatype call =
    ImagePull string
  | ContainerCreate Config HostConfig string
  | NetworkConnect string string
  | ContainerStart string
  | ContainerList ContainerListOptions
  | ContainerInspect string
  | NetworkDisconnect string string bool
  | ContainerStop string
  | ContainerRemove string bool
  | FindMatchingExporters TaskToExport

text \<open>
  \<^verbatim>\<open>client.APIClient\<close>: what each method answers, which may depend on the calls issued
  before it (the runtime has state). \<^verbatim>\<open>ImagePull\<close> answers an error or a reader; the
  reader is modelled by what \<^verbatim>\<open>ioutil.ReadAll\<close> returns on it.
\<close>

record APIClient =
  cli_ImagePull :: "call list \<Rightarrow> string \<Rightarrow> error + error option"
  cli_ContainerCreate ::
    "call list \<Rightarrow> Config \<Rightarrow> HostConfig \<Rightarrow> string \<Rightarrow> error + ContainerCreateCreatedBody"
  cli_NetworkConnect :: "call list \<Rightarrow> string \<Rightarrow> string \<Rightarrow> error option"
  cli_ContainerStart :: "call list \<Rightarrow> string \<Rightarrow> error option"
  cli_ContainerList :: "call list \<Rightarrow> ContainerListOptions \<Rightarrow> error + Container list"
  cli_ContainerInspect :: "call list \<Rightarrow> string \<Rightarrow> error + ContainerJSON"
  cli_NetworkDisconnect :: "call list \<Rightarrow> string \<Rightarrow> string \<Rightarrow> bool \<Rightarrow> error option"
  cli_ContainerStop :: "call list \<Rightarrow> string \<Rightarrow> error option"
  cli_ContainerRemove :: "call list \<Rightarrow> string \<Rightarrow> bool \<Rightarrow> error option"

text \<open>
  \<^verbatim>\<open>models.ExporterFinder\<close>: \<^verbatim>\<open>FindMatchingExporters\<close> returns a Go map from catalog key
  to exporter, and a list of errors. The map is given as the list of its entries in the
  order in which the \<^verbatim>\<open>range\<close> loop of \<^verbatim>\<open>resolveExporters\<close> visits them.
\<close>

type_synonym ExporterFinder = "TaskToExport \<Rightarrow> (string \<times> Exporter) list \<times> error list"

record DockerBackend =
  cli :: APIClient
  promNetwork :: string
  finder :: ExporterFinder

record process =
  process_exporter :: Exporter
  process_step :: string
  process_exporterCID :: string

text \<open>
  \<^verbatim>\<open>context.Context\<close>: whether \<^verbatim>\<open>ctx.Done()\<close> is closed when the pipeline polls it, which
  may depend on the calls issued so far (a call can be what triggers the cancellation, as
  in \<^verbatim>\<open>TestCancelRunExporter\<close>). The other functions only hand the context on to the
  client and the logger: they do not take it here.
\<close>

type_synonym Context = "call list \<Rightarrow> bool"

text \<open>A function either returns or panics (index out of range, nil dereference).\<close>

datatype 'a outcome = Returns 'a | Panics

section \<open>Exporter names\<close>

text \<open>\<^verbatim>\<open>fmt.Sprintf("/exporter.%s.%s", exporterType, strings.TrimLeft(tname, "/"))\<close>.\<close>

definition getExporterName :: "string \<Rightarrow> string \<Rightarrow> string" where
  "getExporterName exporterType tname =
     ''/exporter.'' @ exporterType @ ''.'' @ TrimLeft tname ''/''"

section \<open>The startup pipeline\<close>

text \<open>
  The four steps, each one call to the client. Every function takes the calls issued so
  far and returns them extended by its own.
\<close>

definition pullImage :: "DockerBackend \<Rightarrow> string \<Rightarrow> call list \<Rightarrow> error option \<times> call list" where
  "pullImage b image' log =
     (let log1 = log @ [ImagePull image']
      in case cli_ImagePull (cli b) log image' of
           Inl err \<Rightarrow> (Some (WithStack err), log1)
         | Inr rc \<Rightarrow>
             (case rc of
                Some err \<Rightarrow> (Some (WithStack err), log1)
              | None \<Rightarrow> (None, log1)))"

definition createContainer ::
    "DockerBackend \<Rightarrow> Exporter \<Rightarrow> call list \<Rightarrow> string \<times> error option \<times> call list" where
  "createContainer b exporter log =
     (let config = \<lparr>User = ''1000'',
                     config_Cmd = Cmd exporter,
                     config_Image = Image exporter,
                     Env = EnvVars exporter,
                     config_Labels =
                       [LABEL_EXPORTED_ID \<mapsto> task_ID (ExportedTask exporter),
                        LABEL_EXPORTED_NAME \<mapsto> task_Name (ExportedTask exporter)]\<rparr>;
          hostConfig = \<lparr>NetworkMode = ''container:'' @ task_ID (ExportedTask exporter),
                         RestartPolicy = \<lparr>policy_Name = ''on-failure'',
                                           MaximumRetryCount = 10\<rparr>\<rparr>;
          log1 = log @ [ContainerCreate config hostConfig (Name exporter)]
      in case cli_ContainerCreate (cli b) log config hostConfig (Name exporter) of
           Inl err \<Rightarrow> ([], Some (WithStack err), log1)
         | Inr container \<Rightarrow> (created_ID container, None, log1))"

definition connectToNetwork ::
    "DockerBackend \<Rightarrow> Exporter \<Rightarrow> string \<Rightarrow> call list \<Rightarrow> error option \<times> call list" where
  "connectToNetwork b exporter cid log =
     (let err = cli_NetworkConnect (cli b) log (promNetwork b) cid;
          log1 = log @ [NetworkConnect (promNetwork b) cid]
      in case err of
           Some e \<Rightarrow>
             if Contains (errorMsg e) ''endpoint with name'' then (None, log1)
             else (Some (WithStack e), log1)
         | None \<Rightarrow> (None, log1))"

definition startContainer ::
    "DockerBackend \<Rightarrow> Exporter \<Rightarrow> string \<Rightarrow> call list \<Rightarrow> error option \<times> call list" where
  "startContainer b exporter cid log =
     (let err = cli_ContainerStart (cli b) log cid;
          log1 = log @ [ContainerStart cid]
      in case err of
           Some e \<Rightarrow> (Some (WithStack e), log1)
         | None \<Rightarrow> (None, log1))"

text \<open>
  \<^verbatim>\<open>RunExporter\<close>: the \<^verbatim>\<open>for\<close> loop around \<^verbatim>\<open>select\<close> polls the context, then runs the step
  named by \<^verbatim>\<open>p.step\<close>. \<open>stepsLeft\<close> is the measure under which the loop terminates.
\<close>

definition stepsLeft :: "string \<Rightarrow> nat" where
  "stepsLeft s =
     (if s = stepPullImage then 4 else if s = stepCreate then 3
      else if s = stepConnect then 2 else if s = stepStart then 1 else 0)"

function runLoop ::
    "DockerBackend \<Rightarrow> Context \<Rightarrow> Exporter \<Rightarrow> process \<Rightarrow> call list \<Rightarrow> error option \<times> call list" where
  "runLoop b ctx exporter p log =
     (if ctx log then (None, log)
      else if process_step p = stepPullImage then
        (case pullImage b (Image exporter) log of
           (err, log1) \<Rightarrow>
             if err \<noteq> None then (err, log1)
             else runLoop b ctx exporter (p\<lparr>process_step := stepCreate\<rparr>) log1)
      else if process_step p = stepCreate then
        (case createContainer b (process_exporter p) log of
           (cid, err, log1) \<Rightarrow>
             if err \<noteq> None then (err, log1)
             else runLoop b ctx exporter (p\<lparr>process_exporterCID := cid, process_step := stepConnect\<rparr>) log1)
      else if process_step p = stepConnect then
        (case connectToNetwork b (process_exporter p) (process_exporterCID p) log of
           (err, log1) \<Rightarrow>
             if err \<noteq> None then (err, log1)
             else runLoop b ctx exporter (p\<lparr>process_step := stepStart\<rparr>) log1)
      else if process_step p = stepStart then
        (case startContainer b (process_exporter p) (process_exporterCID p) log of
           (err, log1) \<Rightarrow>
             if err \<noteq> None then (err, log1)
             else runLoop b ctx exporter (p\<lparr>process_step := stepFinished\<rparr>) log1)
      else if process_step p = stepFinished then (None, log)
      else (Some (Error (''undefined step '' @ process_step p)), log))"
  by pat_completeness auto
termination
  by (relation "measure (\<lambda>(b, ctx, exporter, p, log). stepsLeft (process_step p))")
     (simp_all add: stepsLeft_def stepPullImage_def stepCreate_def stepConnect_def
        stepStart_def stepFinished_def)

declare runLoop.simps [simp del]

definition RunExporter ::
    "DockerBackend \<Rightarrow> Context \<Rightarrow> Exporter \<Rightarrow> error option \<times> call list" where
  "RunExporter b ctx exporter =
     runLoop b ctx exporter \<lparr>process_exporter = exporter, process_step = stepPullImage, process_exporterCID = []\<rparr> []"

section \<open>Resolution and missing exporters\<close>

text \<open>
  \<^verbatim>\<open>resolveExporters\<close> asks the finder and names every match; the errors of the finder
  are logged only. \<^verbatim>\<open>FindMissingExporters\<close> lists the containers, collects their names,
  and keeps the resolved exporters whose name is not among them. \<^verbatim>\<open>container.Names[0]\<close>
  panics on a container without a name.
\<close>

definition resolveExporters ::
    "DockerBackend \<Rightarrow> TaskToExport \<Rightarrow> call list \<Rightarrow> Exporter list \<times> call list" where
  "resolveExporters b t log =
     (case finder b t of
        (matching, errors) \<Rightarrow>
          (fold (\<lambda>(pname, m) exporters.
                   exporters @ [m\<lparr>Name := getExporterName pname (task_Name t)\<rparr>])
                matching [],
           log @ [FindMatchingExporters t]))"

fun missingLoop ::
    "DockerBackend \<Rightarrow> labels \<Rightarrow> Container list \<Rightarrow> Exporter list \<Rightarrow> call list
      \<Rightarrow> (Exporter list \<times> error option) outcome \<times> call list" where
  "missingLoop b containerNames [] missing log = (Returns (missing, None), log)"
| "missingLoop b containerNames (container # rest) missing log =
     (if container_Labels container LABEL_EXPORTED_NAME \<noteq> None
      then missingLoop b containerNames rest missing log
      else case Names container of
             [] \<Rightarrow> (Panics, log)
           | name0 # others \<Rightarrow>
               (let t = \<lparr>task_ID = container_ID container, task_Name = name0,
                         task_Labels = container_Labels container\<rparr>
                in case resolveExporters b t log of
                     (exporters, log1) \<Rightarrow>
                       missingLoop b containerNames rest
                         (fold (\<lambda>exporter missing.
                                  if containerNames (Name exporter) = None
                                  then missing @ [exporter] else missing)
                               exporters missing)
                         log1))"

definition FindMissingExporters ::
    "DockerBackend \<Rightarrow> call list \<Rightarrow> (Exporter list \<times> error option) outcome \<times> call list" where
  "FindMissingExporters b log =
     (let opts = \<lparr>All = False, Filters = []\<rparr>;
          log1 = log @ [ContainerList opts]
      in case cli_ContainerList (cli b) log opts of
           Inl err \<Rightarrow> (Returns ([], Some (WithStack err)), log1)
         | Inr containers \<Rightarrow>
             (let containerNames =
                    fold (\<lambda>container names.
                            fold (\<lambda>name names. names(name \<mapsto> name)) (Names container) names)
                         containers Map.empty
              in missingLoop b containerNames containers [] log1))"

section \<open>Teardown\<close>

text \<open>
  \<^verbatim>\<open>stopExporter\<close>: \<open>refused\<close> is the early return after the inspection, if there is one.
  \<^verbatim>\<open>exported.State.Running\<close> is read whenever the inspection succeeds, before \<^verbatim>\<open>force\<close>
  is looked at. After the removal the log entry reads \<^verbatim>\<open>exporter.Names[0]\<close>.
\<close>

definition stopExporter ::
    "DockerBackend \<Rightarrow> Container \<Rightarrow> bool \<Rightarrow> call list \<Rightarrow> error option outcome \<times> call list" where
  "stopExporter b exporter force log =
     (let exporterCID = container_ID exporter;
          exportedCID = index (container_Labels exporter) LABEL_EXPORTED_ID;
          log1 = log @ [ContainerInspect exportedCID];
          refused =
            (case cli_ContainerInspect (cli b) log exportedCID of
               Inl err \<Rightarrow>
                 if \<not> IsErrNotFound err then Some (Returns (Some (WithStack err))) else None
             | Inr exported \<Rightarrow>
                 (case State exported of
                    None \<Rightarrow> Some Panics
                  | Some state \<Rightarrow>
                      if Running state \<and> \<not> force
                      then Some (Returns (Some (newErrExportedTaskStillRunning
                                                  (container_ID exporter) exportedCID)))
                      else None))
      in case refused of
           Some r \<Rightarrow> (r, log1)
         | None \<Rightarrow>
             (let log2 = log1 @ [NetworkDisconnect (promNetwork b) exporterCID force]
              in case cli_NetworkDisconnect (cli b) log1 (promNetwork b) exporterCID force of
                   Some err \<Rightarrow> (Returns (Some (WithStack err)), log2)
                 | None \<Rightarrow>
                     (let log3 = log2 @ [ContainerStop exporterCID]
                      in case cli_ContainerStop (cli b) log2 exporterCID of
                           Some err \<Rightarrow> (Returns (Some (WithStack err)), log3)
                         | None \<Rightarrow>
                             (let log4 = log3 @ [ContainerRemove exporterCID force]
                              in case cli_ContainerRemove (cli b) log3 exporterCID force of
                                   Some err \<Rightarrow> (Returns (Some (WithStack err)), log4)
                                 | None \<Rightarrow>
                                     (case Names exporter of
                                        [] \<Rightarrow> (Panics, log4)
                                      | name0 # others \<Rightarrow> (Returns None, log4))))))"

definition CleanupExporter ::
    "DockerBackend \<Rightarrow> string \<Rightarrow> bool \<Rightarrow> call list \<Rightarrow> error option outcome \<times> call list" where
  "CleanupExporter b exporterName force log =
     (let opts = \<lparr>All = False, Filters = [(''name'', exporterName)]\<rparr>;
          log1 = log @ [ContainerList opts]
      in case cli_ContainerList (cli b) log opts of
           Inl err \<Rightarrow> (Returns (Some err), log1)
         | Inr c \<Rightarrow>
             if length c = 0 then (Returns (Some (Error ''exporter not found'')), log1)
             else if length c > 1
             then (Returns (Some (Error
                     ''more than one container match the provided exporter name'')), log1)
             else stopExporter b (c ! 0) force log1)"

fun cleanupLoop ::
    "DockerBackend \<Rightarrow> bool \<Rightarrow> Container list \<Rightarrow> string list \<Rightarrow> call list
      \<Rightarrow> error option outcome \<times> call list" where
  "cleanupLoop b force [] failed log =
     (if length failed > 0
      then (Returns (Some (Error (''failed to cleanup '' @ Join failed '', ''))), log)
      else (Returns None, log))"
| "cleanupLoop b force (exporter # rest) failed log =
     (case stopExporter b exporter force log of
        (Panics, log1) \<Rightarrow> (Panics, log1)
      | (Returns err, log1) \<Rightarrow>
          (case err of
             None \<Rightarrow> cleanupLoop b force rest failed log1
           | Some e \<Rightarrow>
               if \<not> IsErrExportedTaskStillRunning e then (Returns (Some e), log1)
               else (case Names exporter of
                       [] \<Rightarrow> (Panics, log1)
                     | name0 # others \<Rightarrow> cleanupLoop b force rest (failed @ [name0]) log1)))"

definition CleanupExporters ::
    "DockerBackend \<Rightarrow> bool \<Rightarrow> call list \<Rightarrow> error option outcome \<times> call list" where
  "CleanupExporters b force log =
     (let opts = \<lparr>All = True, Filters = [(''label'', LABEL_EXPORTED_ID)]\<rparr>;
          log1 = log @ [ContainerList opts]
      in case cli_ContainerList (cli b) log opts of
           Inl err \<Rightarrow> (Returns (Some (WithStack err)), log1)
         | Inr exporters \<Rightarrow> cleanupLoop b force exporters [] log1)"

section \<open>Test fixtures\<close>

text \<open>
  The exporter of \<^verbatim>\<open>TestRunExporter\<close>, a client whose every call succeeds (the test's
  \<^verbatim>\<open>fakeClient\<close> with no callback set, creating the container \<^verbatim>\<open>9d234f\<close>), a finder that
  matches nothing, and a client whose \<^verbatim>\<open>NetworkConnect\<close> fails with a given message.
\<close>

definition exporter004 :: Exporter where
  "exporter004 =
     \<lparr>Name = ''exporter004'', ExporterType = ''redis'',
      Image = ''oliver006/redis_exporter:latest'',
      Cmd = [''-redis.addr=redis://localhost:6379''], EnvVars = [''FOO=BAR''],
      Port = ''9121'',
      ExportedTask = \<lparr>task_ID = ''012dfc9'', task_Name = ''task-to-export'',
                       task_Labels = Map.empty\<rparr>\<rparr>"

definition fakeClient :: APIClient where
  "fakeClient =
     \<lparr>cli_ImagePull = (\<lambda>log image'. Inr None),
      cli_ContainerCreate =
        (\<lambda>log config hostConfig name. Inr \<lparr>created_ID = ''9d234f'', Warnings = []\<rparr>),
      cli_NetworkConnect = (\<lambda>log networkID containerID. None),
      cli_ContainerStart = (\<lambda>log containerID. None),
      cli_ContainerList = (\<lambda>log opts. Inr []),
      cli_ContainerInspect =
        (\<lambda>log containerID. Inr \<lparr>json_ID = [], json_Name = [], State = None,
                                  json_Labels = Map.empty\<rparr>),
      cli_NetworkDisconnect = (\<lambda>log networkID containerID force. None),
      cli_ContainerStop = (\<lambda>log containerID. None),
      cli_ContainerRemove = (\<lambda>log containerID force. None)\<rparr>"

definition noFinder :: ExporterFinder where
  "noFinder t = ([], [])"


text \<open>
  The sidecar of \<^verbatim>\<open>TestCleanupExporter\<close> and a client that inspects every container as
  running.
\<close>

definition exporter001 :: Container where
  "exporter001 =
     \<lparr>container_ID = ''exporter-cid'', Names = [''exporter001''],
      container_Labels = [''autoexporter.exported.id'' \<mapsto> ''exported-task-cid'']\<rparr>"

definition runningClient :: APIClient where
  "runningClient =
     fakeClient\<lparr>cli_ContainerInspect :=
       (\<lambda>log containerID. Inr \<lparr>json_ID = containerID, json_Name = [],
                                 State = Some \<lparr>Running = True\<rparr>,
                                 json_Labels = Map.empty\<rparr>)\<rparr>"

section \<open>Teardown: when the sidecar is touched\<close>

text \<open>
  The inspections after which \<^verbatim>\<open>stopExporter\<close> goes on to disconnect, stop and remove:
  the monitored container is not found, or it is inspected and is not running, or it is
  inspected and \<^verbatim>\<open>force\<close> is set.
\<close>

definition proceeds :: "DockerBackend \<Rightarrow> Container \<Rightarrow> bool \<Rightarrow> call list \<Rightarrow> bool" where
  "proceeds b exporter force log \<longleftrightarrow>
     (case cli_ContainerInspect (cli b) log (index (container_Labels exporter) LABEL_EXPORTED_ID) of
        Inl err \<Rightarrow> IsErrNotFound err
      | Inr exported \<Rightarrow>
          (case State exported of None \<Rightarrow> False | Some st \<Rightarrow> \<not> Running st \<or> force))"

section \<open>Bulk teardown: what the claim speaks of\<close>

text \<open>
  \<open>sweep\<close> applies the single teardown to every sidecar of a list in turn, whatever each
  returns, and pairs each sidecar with its result. A result is a \<open>refusal\<close> when it is a
  "still running" error; \<open>refused\<close> are the names (\<^verbatim>\<open>Names[0]\<close>) of the sidecars refused;
  \<open>aggregate\<close> is the error that names them, \<^verbatim>\<open>nil\<close> when there is none. A list of results
  is \<open>recoverable\<close> when each is \<^verbatim>\<open>nil\<close> or the refusal of a sidecar that has a name.
\<close>

fun sweep ::
    "DockerBackend \<Rightarrow> bool \<Rightarrow> Container list \<Rightarrow> call list
      \<Rightarrow> (Container \<times> error option outcome) list \<times> call list" where
  "sweep b force [] log = ([], log)"
| "sweep b force (exporter # rest) log =
     (case stopExporter b exporter force log of
        (r, log1) \<Rightarrow>
          (case sweep b force rest log1 of
             (rs, log2) \<Rightarrow> ((exporter, r) # rs, log2)))"

definition refusal :: "error option outcome \<Rightarrow> bool" where
  "refusal r =
     (case r of
        Returns (Some e) \<Rightarrow> IsErrExportedTaskStillRunning e
      | Returns None \<Rightarrow> False
      | Panics \<Rightarrow> False)"

definition refused :: "(Container \<times> error option outcome) list \<Rightarrow> string list" where
  "refused rs = map (\<lambda>(exporter, r). hd (Names exporter)) (filter (\<lambda>(exporter, r). refusal r) rs)"

definition aggregate :: "string list \<Rightarrow> error option outcome" where
  "aggregate failed =
     (if failed = [] then Returns None
      else Returns (Some (Error (''failed to cleanup '' @ Join failed '', ''))))"

definition recoverable :: "(Container \<times> error option outcome) list \<Rightarrow> bool" where
  "recoverable rs =
     list_all (\<lambda>(exporter, r). r = Returns None \<or> (refusal r \<and> Names exporter \<noteq> [])) rs"

text \<open>
  Three sidecars as in \<^verbatim>\<open>TestCleanupExporters\<close>; the monitored containers of the first and
  the third are running, the inspection of the second fails with the given error.
\<close>

definition sidecar :: "string \<Rightarrow> Container" where
  "sidecar n =
     \<lparr>container_ID = ''exporter'' @ n @ ''-cid'', Names = [''exporter'' @ n],
      container_Labels = [''autoexporter.exported.id'' \<mapsto> ''exported-task'' @ n @ ''-cid'']\<rparr>"

definition threeSidecars :: "error \<Rightarrow> APIClient" where
  "threeSidecars err =
     runningClient
       \<lparr>cli_ContainerList := (\<lambda>log opts. Inr [sidecar ''001'', sidecar ''002'', sidecar ''003'']),
        cli_ContainerInspect :=
          (\<lambda>log containerID.
             if containerID = ''exported-task002-cid'' then Inl err
             else cli_ContainerInspect runningClient log containerID)\<rparr>"

section \<open>Missing exporters: what the claim speaks of\<close>

text \<open>
  A listed container is a sidecar when it carries the label that records the name of the
  monitored task; the task of a container has its id, its first name and its labels; the
  names taken are all the names of all the listed containers.
\<close>

definition isSidecar :: "Container \<Rightarrow> bool" where
  "isSidecar container \<longleftrightarrow> container_Labels container LABEL_EXPORTED_NAME \<noteq> None"

definition taskOf :: "Container \<Rightarrow> TaskToExport" where
  "taskOf container =
     \<lparr>task_ID = container_ID container, task_Name = hd (Names container),
      task_Labels = container_Labels container\<rparr>"

definition takenNames :: "Container list \<Rightarrow> string set" where
  "takenNames containers = (\<Union>container\<in>set containers. set (Names container))"

text \<open>The finder and the listing of \<^verbatim>\<open>TestFindMissingExporters\<close>.\<close>

definition testFinder :: ExporterFinder where
  "testFinder t =
     (if task_Name t = ''/redis''
      then ([(''redis'', \<lparr>Name = ''redis'', ExporterType = ''redis'',
                          Image = ''oliver006/redis_exporter:v0.25.0'', Cmd = [], EnvVars = [],
                          Port = ''9121'', ExportedTask = t\<rparr>)], [])
      else ([(''type'', \<lparr>Name = ''type'', ExporterType = ''type'',
                         Image = ''some/image'', Cmd = [], EnvVars = [],
                         Port = ''8080'', ExportedTask = t\<rparr>)], []))"

definition listedContainers :: "Container list" where
  "listedContainers =
     [\<lparr>container_ID = ''exported-task001-cid'', Names = [''/exported-task001''],
       container_Labels = Map.empty\<rparr>,
      \<lparr>container_ID = ''exporter001-cid'', Names = [''/exporter.type.exported-task001''],
       container_Labels = [''autoexporter.exported.id'' \<mapsto> ''exported-task001-cid'',
                           ''autoexporter.exported.name'' \<mapsto> ''exported-task001'']\<rparr>,
      \<lparr>container_ID = ''exported-task002-cid'', Names = [''/redis''],
       container_Labels = Map.empty\<rparr>]"

section \<open>The event handler for a started container\<close>

text \<open>
  \<^verbatim>\<open>handleContainerStart\<close>, \<^verbatim>\<open>readLabel\<close> and \<^verbatim>\<open>renderTpl\<close> of the event listener. What they
  call and is not among the sources is a parameter: the constant
  \<^verbatim>\<open>LABEL_EXPORTER_NAME\<close>, the \<^verbatim>\<open>html/template\<close> library (\<open>Template\<close> parses a text into an
  error or a template, a template executes on a container into an error or a string),
  the client's \<^verbatim>\<open>ContainerInspect\<close>, and \<^verbatim>\<open>models.FindMatchingExporter\<close>,
  \<^verbatim>\<open>models.FromPredefinedExporter\<close>, \<^verbatim>\<open>models.IsErrPredefinedExporterNotFound\<close>. The handler
  returns its error and the calls it made; \<open>RunExporterFor\<close> records the call of
  \<^verbatim>\<open>b.RunExporter\<close>, whose result the handler drops. \<open>json_Labels\<close> stands for
  \<^verbatim>\<open>container.Config.Labels\<close>.
\<close>

datatype 'e handler_call =
    InspectContainer string
  | FindMatchingExporter string
  | FromPredefinedExporter string string
  | RunExporterFor 'e

record 'e Collaborators =
  LABEL_EXPORTER_NAME :: string
  Template :: "string \<Rightarrow> error + (ContainerJSON \<Rightarrow> error + string)"
  inspect :: "string \<Rightarrow> error + ContainerJSON"
  findMatchingExporter :: "string \<Rightarrow> string"
  fromPredefinedExporter :: "string \<Rightarrow> string \<Rightarrow> ContainerJSON \<Rightarrow> error + 'e"
  IsErrPredefinedExporterNotFound :: "error \<Rightarrow> bool"

definition renderTpl ::
    "'e Collaborators \<Rightarrow> string \<Rightarrow> ContainerJSON \<Rightarrow> error + string" where
  "renderTpl d tplStr values =
     (case Template d tplStr of
        Inl err \<Rightarrow> Inl (WithStack err)
      | Inr tpl \<Rightarrow>
          (case tpl values of
             Inl err \<Rightarrow> Inl (WithStack err)
           | Inr val \<Rightarrow> Inr val))"

definition readLabel ::
    "'e Collaborators \<Rightarrow> ContainerJSON \<Rightarrow> string \<Rightarrow> error + string" where
  "readLabel d container label = renderTpl d (index (json_Labels container) label) container"

definition handleContainerStart ::
    "'e Collaborators \<Rightarrow> string \<Rightarrow> string \<Rightarrow> error option \<times> 'e handler_call list" where
  "handleContainerStart d containerId promNetwrk =
     (let log1 = [InspectContainer containerId]
      in case inspect d containerId of
           Inl err \<Rightarrow>
             if IsErrNotFound err then (None, log1) else (Some (WithStack err), log1)
         | Inr container \<Rightarrow>
             (case readLabel d container (LABEL_EXPORTER_NAME d) of
                Inl err \<Rightarrow> (Some err, log1)
              | Inr rendered \<Rightarrow>
                  (let (exporterName, log2) =
                         (if rendered = []
                          then (findMatchingExporter d (json_Name container),
                                log1 @ [FindMatchingExporter (json_Name container)])
                          else (rendered, log1))
                   in if exporterName = [] then (None, log2)
                      else (let log3 = log2 @ [FromPredefinedExporter exporterName promNetwrk]
                            in case fromPredefinedExporter d exporterName promNetwrk container of
                                 Inl err \<Rightarrow>
                                   if IsErrPredefinedExporterNotFound d err then (None, log3)
                                   else (Some err, log3)
                               | Inr exporter \<Rightarrow> (None, log3 @ [RunExporterFor exporter])))))"

text \<open>
  A task that carries the exporter-type label, a container inspected with that label, and
  collaborators whose templates render to their own text and whose catalog knows the
  exporter \<open>redis\<close> only.
\<close>

definition labelledTask :: TaskToExport where
  "labelledTask =
     \<lparr>task_ID = ''0a1b2c'', task_Name = ''/db'',
      task_Labels = [''autoexporter.exporter'' \<mapsto> ''redis'']\<rparr>"

definition labelledContainer :: ContainerJSON where
  "labelledContainer =
     \<lparr>json_ID = ''0a1b2c'', json_Name = ''/db'', State = Some \<lparr>Running = True\<rparr>,
      json_Labels = [''autoexporter.exporter'' \<mapsto> ''redis'']\<rparr>"

definition literalTemplates :: "Exporter Collaborators" where
  "literalTemplates =
     \<lparr>LABEL_EXPORTER_NAME = ''autoexporter.exporter'',
      Template = (\<lambda>tplStr. Inr (\<lambda>values. Inr tplStr)),
      inspect = (\<lambda>containerId. Inr labelledContainer),
      findMatchingExporter = (\<lambda>name. ''type''),
      fromPredefinedExporter =
        (\<lambda>exporterName promNetwrk container.
           if exporterName = ''redis'' then Inr exporter004
           else Inl (Error ''predefined exporter not found'')),
      IsErrPredefinedExporterNotFound = (\<lambda>err. err = Error ''predefined exporter not found'')\<rparr>"

section \<open>Properties of the retry helper\<close>

lemma outcome_0: "outcome f s 0 = fst (f s)"
  by (simp add: outcome_def)

lemma outcome_Suc: "outcome f s (Suc k) = outcome f (snd (f s)) k"
  by (simp add: outcome_def)

lemma attempts_0: "attempts d 0 = [Invoke]"
  by (simp add: attempts_def)

lemma attempts_Suc: "attempts d (Suc k) = Invoke # Sleep d # attempts d k"
  by (simp add: attempts_def)

lemma retry_fail_step:
  assumes "fst (f s) \<noteq> None" and "t - 1 \<noteq> 0"
  shows "retry t d f (s, tr) = retry (t - 1) d f (snd (f s), tr @ [Invoke, Sleep d])"
  using assms by (cases "f s") (subst retry.simps, simp)

lemma retry_fail_last:
  assumes "fst (f s) \<noteq> None" and "t - 1 = 0"
  shows "retry t d f (s, tr) = (fst (f s), snd (f s), tr @ [Invoke])"
  using assms by (cases "f s") (subst retry.simps, simp)

lemma retry_success_now:
  assumes "fst (f s) = None"
  shows "retry t d f (s, tr) = (None, snd (f s), tr @ [Invoke])"
  using assms by (cases "f s") (subst retry.simps, simp)

lemma unat_pred_pred:
  fixes t :: "64 word"
  assumes "t - 1 \<noteq> 0"
  shows "unat (t - 1 - 1) = unat (t - 1) - 1"
  using assms unat_minus_one [of "t - 1"] by simp

lemma retry_all_fail:
  "unat (t - 1) = n \<Longrightarrow> \<forall>k\<le>n. outcome f s k \<noteq> None \<Longrightarrow>
   retry t d f (s, tr) = (outcome f s n, stateAfter f s (Suc n), tr @ attempts d n)"
proof (induction n arbitrary: t s tr)
  case 0
  then have "t - 1 = 0" by (simp add: unat_eq_0)
  moreover from 0 have "fst (f s) \<noteq> None" by (simp add: outcome_0)
  ultimately show ?case
    by (simp add: retry_fail_last outcome_0 attempts_0)
next
  case (Suc n)
  then have nz: "t - 1 \<noteq> 0" by auto
  from Suc.prems have f0: "fst (f s) \<noteq> None"
    using outcome_0 [of f s] by (metis le0)
  have u: "unat (t - 1 - 1) = n"
    using unat_pred_pred [OF nz] Suc.prems(1) by simp
  have rest: "\<forall>k\<le>n. outcome f (snd (f s)) k \<noteq> None"
    using Suc.prems(2) by (auto simp: outcome_Suc [symmetric])
  show ?case
    using Suc.IH [OF u rest, of "tr @ [Invoke, Sleep d]"]
    by (simp add: retry_fail_step [where f = f and s = s and t = t, OF f0 nz] outcome_Suc attempts_Suc)
qed

lemma retry_first_success:
  "j \<le> unat (t - 1) \<Longrightarrow> outcome f s j = None \<Longrightarrow> \<forall>k<j. outcome f s k \<noteq> None \<Longrightarrow>
   retry t d f (s, tr) = (None, stateAfter f s (Suc j), tr @ attempts d j)"
proof (induction j arbitrary: t s tr)
  case 0
  then show ?case
    by (simp add: retry_success_now outcome_0 attempts_0)
next
  case (Suc j)
  then have nz: "t - 1 \<noteq> 0" by auto
  from Suc.prems have f0: "fst (f s) \<noteq> None"
    using outcome_0 [of f s] by (metis zero_less_Suc)
  have u: "j \<le> unat (t - 1 - 1)"
    using unat_pred_pred [OF nz] Suc.prems(1) by simp
  have now: "outcome f (snd (f s)) j = None"
    using Suc.prems(2) by (simp add: outcome_Suc)
  have rest: "\<forall>k<j. outcome f (snd (f s)) k \<noteq> None"
    using Suc.prems(3) by (auto simp: outcome_Suc [symmetric])
  show ?case
    using Suc.IH [OF u now rest, of "tr @ [Invoke, Sleep d]"]
    by (simp add: retry_fail_step [where f = f and s = s and t = t, OF f0 nz] attempts_Suc)
qed

lemma invocations_attempts: "invocations (attempts d k) = Suc k"
  by (induction k) (simp_all add: attempts_0 attempts_Suc invocations_def)

text \<open>
  Claim C9. For an attempt bound \<open>n \<ge> 1\<close> the helper invokes the operation at most \<open>n\<close>
  times, with one \<^verbatim>\<open>Sleep(interval)\<close> between two consecutive invocations (the trace it
  adds is \<open>attempts d k\<close> for some \<open>k < n\<close>); it returns \<^verbatim>\<open>nil\<close> at the first invocation
  that succeeds, without a further attempt; and when the first \<open>n\<close> invocations all fail
  it returns the error of the \<open>n\<close>-th, the last one.
\<close>

theorem retry_bounded:
  assumes "n \<noteq> 0"
  shows "(\<exists>k<unat n. snd (snd (retry n d f (s, tr))) = tr @ attempts d k)
       \<and> invocations (snd (snd (retry n d f (s, [])))) \<le> unat n
       \<and> (\<forall>j<unat n. outcome f s j = None \<and> (\<forall>k<j. outcome f s k \<noteq> None) \<longrightarrow>
            retry n d f (s, tr) = (None, stateAfter f s (Suc j), tr @ attempts d j))
       \<and> ((\<forall>k<unat n. outcome f s k \<noteq> None) \<longrightarrow>
            retry n d f (s, tr)
              = (outcome f s (unat n - 1), stateAfter f s (unat n), tr @ attempts d (unat n - 1)))"
proof -
  from assms have pos: "0 < unat n" by (simp add: unat_gt_0)
  have u: "unat (n - 1) = unat n - 1"
    using assms by (simp add: unat_minus_one)
  have succ: "retry n d f (s, tr') = (None, stateAfter f s (Suc j), tr' @ attempts d j)"
    if "j < unat n" "outcome f s j = None" "\<forall>k<j. outcome f s k \<noteq> None" for j tr'
    using that u by (intro retry_first_success) simp_all
  have fail: "retry n d f (s, tr')
      = (outcome f s (unat n - 1), stateAfter f s (unat n), tr' @ attempts d (unat n - 1))"
    if "\<forall>k<unat n. outcome f s k \<noteq> None" for tr'
  proof -
    have "\<forall>k\<le>unat n - 1. outcome f s k \<noteq> None" using that pos by auto
    from retry_all_fail [OF u this, of d tr'] pos show ?thesis by simp
  qed
  have shape: "\<exists>k<unat n. snd (snd (retry n d f (s, tr'))) = tr' @ attempts d k" for tr'
  proof (cases "\<forall>k<unat n. outcome f s k \<noteq> None")
    case True
    with fail [of tr'] pos show ?thesis by (intro exI [of _ "unat n - 1"]) simp
  next
    case False
    then obtain j where j: "j < unat n" "outcome f s j = None"
      "\<forall>k<j. outcome f s k \<noteq> None"
      using exists_least_iff [of "\<lambda>k. k < unat n \<and> outcome f s k = None"] by fastforce
    with succ [of j tr'] show ?thesis by (intro exI [of _ j]) simp
  qed
  from shape [of "[]"] have "invocations (snd (snd (retry n d f (s, [])))) \<le> unat n"
    by (auto simp: invocations_attempts)
  with shape [of tr] succ fail show ?thesis by blast
qed

theorem retry_bounded_witness:
  "retry 3 5 (\<lambda>k::nat. (if k < 1 then Some (Error ''unavailable'') else None, Suc k)) (0, [])
     = (None, 2, [Invoke, Sleep 5, Invoke])
   \<and> retry 3 5 (\<lambda>k::nat. (Some (Error (if k < 2 then ''first'' else ''last'')), Suc k)) (0, [])
     = (Some (Error ''last''), 3, [Invoke, Sleep 5, Invoke, Sleep 5, Invoke])"
proof -
  have n: "(3::64 word) \<noteq> 0" by simp
  note a = retry_bounded [OF n, of 5 "\<lambda>k::nat. (if k < 1 then Some (Error ''unavailable'') else None, Suc k)" 0 "[]",
      THEN conjunct2, THEN conjunct2, THEN conjunct1, rule_format, of 1]
  note b = retry_bounded [OF n, of 5 "\<lambda>k::nat. (Some (Error (if k < 2 then ''first'' else ''last'')), Suc k)" 0 "[]",
      THEN conjunct2, THEN conjunct2, THEN conjunct2, rule_format]
  have u: "unat (3::64 word) = Suc (Suc (Suc 0))" by simp
  show ?thesis
    using a b unfolding u by (simp add: outcome_def attempts_def numeral_2_eq_2 numeral_3_eq_3 less_Suc_eq)
qed

text \<open>
  The helper on a bounded stack: a failed attempt that is retried takes one frame; while
  the attempts fail and the counter allows another one, the frames run out without a
  return; with more frames than the counter allows retries, the helper returns, and what
  it returns is the result of \<open>retry\<close>.
\<close>

lemma retryWithin_fail_step:
  assumes "fst (f s) \<noteq> None" and "t - 1 \<noteq> 0"
  shows "retryWithin (Suc frames) t d f (s, tr)
    = retryWithin frames (t - 1) d f (snd (f s), tr @ [Invoke, Sleep d])"
  using assms by (cases "f s") simp

lemma retryWithin_exhausts:
  "frames \<le> unat (t - 1) \<Longrightarrow> \<forall>k<frames. outcome f s k \<noteq> None \<Longrightarrow>
   retryWithin frames t d f (s, tr)
     = (None, stateAfter f s frames, tr @ concat (replicate frames [Invoke, Sleep d]))"
proof (induction frames arbitrary: t s tr)
  case 0
  then show ?case by simp
next
  case (Suc frames)
  then have nz: "t - 1 \<noteq> 0" by auto
  from Suc.prems have f0: "fst (f s) \<noteq> None"
    using outcome_0 [of f s] by (metis zero_less_Suc)
  have u: "frames \<le> unat (t - 1 - 1)"
    using unat_pred_pred [OF nz] Suc.prems(1) by simp
  have rest: "\<forall>k<frames. outcome f (snd (f s)) k \<noteq> None"
    using Suc.prems(2) by (auto simp: outcome_Suc [symmetric])
  show ?case
    using Suc.IH [OF u rest, of "tr @ [Invoke, Sleep d]"]
    by (simp add: retryWithin_fail_step [where f = f and s = s and t = t, OF f0 nz]
        del: retryWithin.simps)
qed

lemma retryWithin_returns:
  "unat (t - 1) < frames \<Longrightarrow> \<exists>r. fst (retryWithin frames t d f (s, tr)) = Some r"
proof (induction frames arbitrary: t s tr)
  case 0
  then show ?case by simp
next
  case (Suc frames)
  show ?case
  proof (cases "fst (f s) \<noteq> None \<and> t - 1 \<noteq> 0")
    case True
    then have nz: "t - 1 \<noteq> 0" by simp
    then have "0 < unat (t - 1)" by (simp add: unat_gt_0)
    then have "unat (t - 1 - 1) < frames"
      using unat_pred_pred [OF nz] Suc.prems by linarith
    from Suc.IH [OF this] True show ?thesis
      by (simp add: retryWithin_fail_step [where f = f and s = s and t = t]
          del: retryWithin.simps)
  next
    case False
    then show ?thesis by (cases "f s") auto
  qed
qed

lemma retryWithin_retry:
  "retryWithin frames t d f (s, tr) = (Some r, w) \<Longrightarrow> retry t d f (s, tr) = (r, w)"
proof (induction frames arbitrary: t s tr)
  case 0
  then show ?case by simp
next
  case (Suc frames)
  show ?case
  proof (cases "fst (f s) \<noteq> None \<and> t - 1 \<noteq> 0")
    case True
    then have f0: "fst (f s) \<noteq> None" and nz: "t - 1 \<noteq> 0" by simp_all
    from Suc.prems
    have "retryWithin frames (t - 1) d f (snd (f s), tr @ [Invoke, Sleep d]) = (Some r, w)"
      by (simp add: retryWithin_fail_step [where f = f and s = s and t = t, OF f0 nz]
          del: retryWithin.simps)
    from Suc.IH [OF this] show ?thesis
      by (simp add: retry_fail_step [where f = f and s = s and t = t, OF f0 nz])
  next
    case False
    then consider "fst (f s) = None" | "fst (f s) \<noteq> None" "t - 1 = 0" by auto
    then show ?thesis
    proof cases
      case 1
      with Suc.prems show ?thesis
        by (cases "f s") (auto simp: retry_success_now)
    next
      case 2
      with Suc.prems show ?thesis
        by (cases "f s") (auto simp: retry_fail_last)
    qed
  qed
qed

lemma invocations_rounds: "invocations (concat (replicate m [Invoke, Sleep d])) = m"
  by (induction m) (simp_all add: invocations_def)

text \<open>
  Claim C10. The bound on the attempts needs \<open>n \<ge> 1\<close>: with it, a stack of \<open>n\<close> frames is
  enough for the helper to return. With the bound 0 the decrement of the unsigned counter
  wraps to \<open>2 ^ 64 - 1\<close>, which is not 0: against an operation that always fails the helper
  does not return after zero or one attempt but invokes the operation again and again,
  once per frame, and on no stack of fewer than \<open>2 ^ 64\<close> frames does it return.
\<close>

theorem retry_zero_wraps:
  "(0::64 word) - 1 = 18446744073709551615
   \<and> (n \<noteq> 0 \<and> unat n \<le> frames \<longrightarrow>
        (\<exists>r w. retryWithin frames n d f (s, tr) = (Some r, w) \<and> retry n d f (s, tr) = (r, w)))
   \<and> ((\<forall>k. outcome f s k \<noteq> None) \<and> frames < 2 ^ 64 \<longrightarrow>
        retryWithin frames 0 d f (s, tr)
          = (None, stateAfter f s frames, tr @ concat (replicate frames [Invoke, Sleep d]))
        \<and> invocations (snd (snd (retryWithin frames 0 d f (s, [])))) = frames)"
proof -
  have w: "(0::64 word) - 1 = 18446744073709551615" by simp
  have u: "unat ((0::64 word) - 1) = 2 ^ 64 - 1" unfolding w by simp
  have ret: "\<exists>r w. retryWithin frames n d f (s, tr) = (Some r, w) \<and> retry n d f (s, tr) = (r, w)"
    if "n \<noteq> 0" "unat n \<le> frames"
  proof -
    from that have "unat (n - 1) < frames"
      using unat_minus_one [OF that(1)] unat_gt_0 [of n] by simp
    from retryWithin_returns [OF this, of d f s tr]
    obtain r where "fst (retryWithin frames n d f (s, tr)) = Some r" by blast
    then have eq: "retryWithin frames n d f (s, tr)
        = (Some r, snd (retryWithin frames n d f (s, tr)))"
      by (simp add: prod_eq_iff)
    from retryWithin_retry [OF eq] eq show ?thesis by blast
  qed
  have run: "retryWithin frames 0 d f (s, tr')
      = (None, stateAfter f s frames, tr' @ concat (replicate frames [Invoke, Sleep d]))"
    if "\<forall>k. outcome f s k \<noteq> None" "frames < 2 ^ 64" for tr'
  proof -
    from that(2) have "frames \<le> unat ((0::64 word) - 1)" unfolding u by simp
    moreover from that(1) have "\<forall>k<frames. outcome f s k \<noteq> None" by simp
    ultimately show ?thesis by (rule retryWithin_exhausts)
  qed
  have cnt: "invocations (snd (snd (retryWithin frames 0 d f (s, [])))) = frames"
    if "\<forall>k. outcome f s k \<noteq> None" "frames < 2 ^ 64"
    using run [OF that, of "[]"] by (simp only: snd_conv append_Nil invocations_rounds)
  from w ret run cnt show ?thesis by blast
qed

theorem retry_zero_wraps_witness:
  "fst (retryWithin 10000000 0 5 (\<lambda>u::unit. (Some (Error ''down''), u)) ((), [])) = None
   \<and> invocations (snd (snd (retryWithin 10000000 0 5
        (\<lambda>u::unit. (Some (Error ''down''), u)) ((), [])))) = 10000000
   \<and> (\<exists>r w. retryWithin 3 3 5 (\<lambda>u::unit. (Some (Error ''down''), u)) ((), []) = (Some r, w)
          \<and> retry 3 5 (\<lambda>u::unit. (Some (Error ''down''), u)) ((), []) = (r, w))"
proof -
  let ?f = "\<lambda>u::unit. (Some (Error ''down''), u)"
  have fails: "\<forall>k. outcome ?f () k \<noteq> None"
    by (simp add: outcome_def)
  have small: "(10000000::nat) < 2 ^ 64" by simp
  have three: "(3::64 word) \<noteq> 0 \<and> unat (3::64 word) \<le> 3" by simp
  note never = retry_zero_wraps [of _ 10000000 _ ?f "()" "[]", THEN conjunct2, THEN conjunct2,
      rule_format, OF conjI [OF fails small]]
  note bounded = retry_zero_wraps [of 3 3 5 ?f "()" "[]", THEN conjunct2, THEN conjunct1,
      rule_format, OF three]
  have a: "fst (retryWithin 10000000 0 5 ?f ((), [])) = None"
    using never [of 5, THEN conjunct1] by simp
  have b: "invocations (snd (snd (retryWithin 10000000 0 5 ?f ((), [])))) = 10000000"
    using never [of 5, THEN conjunct2] .
  from a b bounded show ?thesis by blast
qed

section \<open>Properties of the startup pipeline\<close>

text \<open>One iteration of the loop of \<^verbatim>\<open>RunExporter\<close>, for each value of \<^verbatim>\<open>p.step\<close>.\<close>

lemmas step_defs = stepPullImage_def stepCreate_def stepConnect_def stepStart_def stepFinished_def

lemma runLoop_done: "ctx log \<Longrightarrow> runLoop b ctx e p log = (None, log)"
  by (subst runLoop.simps) simp

lemma runLoop_pull:
  assumes "\<not> ctx log" and "process_step p = stepPullImage"
  shows "runLoop b ctx e p log =
    (case pullImage b (Image e) log of
       (err, log1) \<Rightarrow>
         if err \<noteq> None then (err, log1)
         else runLoop b ctx e (p\<lparr>process_step := stepCreate\<rparr>) log1)"
  using assms by (subst runLoop.simps) simp

lemma runLoop_create:
  assumes "\<not> ctx log" and "process_step p = stepCreate"
  shows "runLoop b ctx e p log =
    (case createContainer b (process_exporter p) log of
       (cid, err, log1) \<Rightarrow>
         if err \<noteq> None then (err, log1)
         else runLoop b ctx e (p\<lparr>process_exporterCID := cid, process_step := stepConnect\<rparr>) log1)"
  using assms by (subst runLoop.simps) (simp add: step_defs)

lemma runLoop_connect:
  assumes "\<not> ctx log" and "process_step p = stepConnect"
  shows "runLoop b ctx e p log =
    (case connectToNetwork b (process_exporter p) (process_exporterCID p) log of
       (err, log1) \<Rightarrow>
         if err \<noteq> None then (err, log1)
         else runLoop b ctx e (p\<lparr>process_step := stepStart\<rparr>) log1)"
  using assms by (subst runLoop.simps) (simp add: step_defs)

lemma runLoop_start:
  assumes "\<not> ctx log" and "process_step p = stepStart"
  shows "runLoop b ctx e p log =
    (case startContainer b (process_exporter p) (process_exporterCID p) log of
       (err, log1) \<Rightarrow>
         if err \<noteq> None then (err, log1)
         else runLoop b ctx e (p\<lparr>process_step := stepFinished\<rparr>) log1)"
  using assms by (subst runLoop.simps) (simp add: step_defs)

lemma runLoop_finished:
  assumes "process_step p = stepFinished"
  shows "runLoop b ctx e p log = (None, log)"
  using assms by (subst runLoop.simps) (simp add: step_defs)


lemma pullImage_log: "snd (pullImage b i log) = log @ [ImagePull i]"
  by (simp add: pullImage_def Let_def split: sum.splits option.splits)

lemma startContainer_log: "snd (startContainer b e cid log) = log @ [ContainerStart cid]"
  by (simp add: startContainer_def Let_def split: option.splits)

lemma connectToNetwork_log:
  "snd (connectToNetwork b e cid log) = log @ [NetworkConnect (promNetwork b) cid]"
  by (simp add: connectToNetwork_def Let_def split: option.splits)

text \<open>
  Claim C2. When the context is never cancelled and no call fails, \<^verbatim>\<open>RunExporter\<close> issues
  one image pull, then one container create (user 1000, the exporter's command, image and
  environment, the monitored task's id and name as labels, network mode
  \<open>container:<monitored task id>\<close>, restart policy on-failure with at most 10 retries,
  under the exporter's name), then one network connect of the created container to the
  monitoring network, then one start of it, in that order, and returns \<^verbatim>\<open>nil\<close>.
\<close>

theorem RunExporter_success:
  assumes never: "\<forall>log. \<not> ctx log"
    and config: "config = \<lparr>User = ''1000'', config_Cmd = Cmd e, config_Image = Image e,
        Env = EnvVars e,
        config_Labels = [''autoexporter.exported.id'' \<mapsto> task_ID (ExportedTask e),
                         ''autoexporter.exported.name'' \<mapsto> task_Name (ExportedTask e)]\<rparr>"
    and hostConfig: "hostConfig = \<lparr>NetworkMode = ''container:'' @ task_ID (ExportedTask e),
        RestartPolicy = \<lparr>policy_Name = ''on-failure'', MaximumRetryCount = 10\<rparr>\<rparr>"
    and pull: "cli_ImagePull (cli b) [] (Image e) = Inr None"
    and create: "cli_ContainerCreate (cli b) [ImagePull (Image e)] config hostConfig (Name e)
        = Inr created"
    and connect: "cli_NetworkConnect (cli b)
        [ImagePull (Image e), ContainerCreate config hostConfig (Name e)]
        (promNetwork b) (created_ID created) = None"
    and start: "cli_ContainerStart (cli b)
        [ImagePull (Image e), ContainerCreate config hostConfig (Name e),
         NetworkConnect (promNetwork b) (created_ID created)]
        (created_ID created) = None"
  shows "RunExporter b ctx e =
    (None, [ImagePull (Image e),
            ContainerCreate config hostConfig (Name e),
            NetworkConnect (promNetwork b) (created_ID created),
            ContainerStart (created_ID created)])"
proof -
  let ?p0 = "\<lparr>process_exporter = e, process_step = stepPullImage, process_exporterCID = []\<rparr>"
  let ?l1 = "[ImagePull (Image e)]"
  let ?l2 = "[ImagePull (Image e), ContainerCreate config hostConfig (Name e)]"
  let ?l3 = "[ImagePull (Image e), ContainerCreate config hostConfig (Name e),
      NetworkConnect (promNetwork b) (created_ID created)]"
  let ?l4 = "[ImagePull (Image e), ContainerCreate config hostConfig (Name e),
      NetworkConnect (promNetwork b) (created_ID created), ContainerStart (created_ID created)]"
  have nc: "\<not> ctx l" for l using never by simp
  have p1: "pullImage b (Image e) [] = (None, ?l1)"
    using pull by (simp add: pullImage_def)
  have p2: "createContainer b e ?l1 = (created_ID created, None, ?l2)"
    using create
    by (simp add: createContainer_def Let_def config hostConfig
        LABEL_EXPORTED_ID_def LABEL_EXPORTED_NAME_def)
  have p3: "connectToNetwork b e (created_ID created) ?l2 = (None, ?l3)"
    using connect by (simp add: connectToNetwork_def)
  have p4: "startContainer b e (created_ID created) ?l3 = (None, ?l4)"
    using start by (simp add: startContainer_def)
  have "RunExporter b ctx e = runLoop b ctx e (?p0\<lparr>process_step := stepCreate\<rparr>) ?l1"
    unfolding RunExporter_def by (subst runLoop_pull [OF nc]) (simp_all add: p1)
  also have "\<dots> = runLoop b ctx e
      (?p0\<lparr>process_exporterCID := created_ID created, process_step := stepConnect\<rparr>) ?l2"
    by (subst runLoop_create [OF nc]) (simp_all add: p2)
  also have "\<dots> = runLoop b ctx e
      (?p0\<lparr>process_exporterCID := created_ID created, process_step := stepStart\<rparr>) ?l3"
    by (subst runLoop_connect [OF nc]) (simp_all add: p3)
  also have "\<dots> = runLoop b ctx e
      (?p0\<lparr>process_exporterCID := created_ID created, process_step := stepFinished\<rparr>) ?l4"
    by (subst runLoop_start [OF nc]) (simp_all add: p4)
  also have "\<dots> = (None, ?l4)"
    by (rule runLoop_finished) simp
  finally show ?thesis by simp
qed

theorem RunExporter_success_witness:
  "RunExporter \<lparr>cli = fakeClient, promNetwork = ''testnet'', finder = noFinder\<rparr>
       (\<lambda>log. False) exporter004 =
    (None,
     [ImagePull ''oliver006/redis_exporter:latest'',
      ContainerCreate
        \<lparr>User = ''1000'', config_Cmd = [''-redis.addr=redis://localhost:6379''],
         config_Image = ''oliver006/redis_exporter:latest'', Env = [''FOO=BAR''],
         config_Labels = [''autoexporter.exported.id'' \<mapsto> ''012dfc9'',
                          ''autoexporter.exported.name'' \<mapsto> ''task-to-export'']\<rparr>
        \<lparr>NetworkMode = ''container:012dfc9'',
         RestartPolicy = \<lparr>policy_Name = ''on-failure'', MaximumRetryCount = 10\<rparr>\<rparr>
        ''exporter004'',
      NetworkConnect ''testnet'' ''9d234f'',
      ContainerStart ''9d234f''])"
  using RunExporter_success [of "\<lambda>log. False" _ exporter004 _
      "\<lparr>cli = fakeClient, promNetwork = ''testnet'', finder = noFinder\<rparr>"
      "\<lparr>created_ID = ''9d234f'', Warnings = []\<rparr>", OF _ refl refl]
  by (simp add: exporter004_def fakeClient_def)





lemma createContainer_log:
  "createContainer b e log = (cid, err, log1) \<Longrightarrow>
   \<exists>config hostConfig. log1 = log @ [ContainerCreate config hostConfig (Name e)]"
  by (auto simp: createContainer_def Let_def split: sum.splits)

text \<open>
  Claim C1. At every step boundary (every entry of the loop, whatever the step and the
  calls issued so far) a context seen done makes the pipeline return \<^verbatim>\<open>nil\<close> with no
  further call. For the whole run: when the cancellation is seen at the first boundary no
  call is issued; when it is seen after the pull, after the create, after the connect or
  after the start (the steps before having returned no error), the pipeline returns
  \<^verbatim>\<open>nil\<close> and has issued the calls of those steps only. So a cancellation seen before the
  Connect step leaves neither a network connect nor a container start in the run. (A step
  that returns an error ends the run with that error before the context is polled again.)
\<close>

theorem RunExporter_cancelled:
  "(ctx log \<longrightarrow> runLoop b ctx e p log = (None, log))
   \<and> (ctx [] \<longrightarrow> RunExporter b ctx e = (None, []))
   \<and> (\<not> ctx [] \<and> pullImage b (Image e) [] = (None, l1) \<and> ctx l1 \<longrightarrow>
        RunExporter b ctx e = (None, [ImagePull (Image e)]))
   \<and> (\<not> ctx [] \<and> pullImage b (Image e) [] = (None, l1) \<and> \<not> ctx l1
        \<and> createContainer b e l1 = (cid, None, l2) \<and> ctx l2 \<longrightarrow>
        RunExporter b ctx e = (None, l2)
        \<and> (\<exists>config hostConfig.
              l2 = [ImagePull (Image e), ContainerCreate config hostConfig (Name e)]))
   \<and> (\<not> ctx [] \<and> pullImage b (Image e) [] = (None, l1) \<and> \<not> ctx l1
        \<and> createContainer b e l1 = (cid, None, l2) \<and> \<not> ctx l2
        \<and> connectToNetwork b e cid l2 = (None, l3) \<and> ctx l3 \<longrightarrow>
        RunExporter b ctx e = (None, l3)
        \<and> l3 = l2 @ [NetworkConnect (promNetwork b) cid]
        \<and> (\<forall>c. ContainerStart c \<notin> set l3))
   \<and> (\<not> ctx [] \<and> pullImage b (Image e) [] = (None, l1) \<and> \<not> ctx l1
        \<and> createContainer b e l1 = (cid, None, l2) \<and> \<not> ctx l2
        \<and> connectToNetwork b e cid l2 = (None, l3) \<and> \<not> ctx l3
        \<and> startContainer b e cid l3 = (None, l4) \<and> ctx l4 \<longrightarrow>
        RunExporter b ctx e = (None, l4)
        \<and> l4 = l3 @ [ContainerStart cid])"
proof -
  let ?p0 = "\<lparr>process_exporter = e, process_step = stepPullImage, process_exporterCID = []\<rparr>"
  have A: "runLoop b ctx e q l = (None, l)" if "ctx l" for q l
    using that by (rule runLoop_done)
  have s1: "RunExporter b ctx e = runLoop b ctx e (?p0\<lparr>process_step := stepCreate\<rparr>) l1"
    if "\<not> ctx []" "pullImage b (Image e) [] = (None, l1)"
    unfolding RunExporter_def
    by (subst runLoop_pull [where ctx = ctx and log = "[]", OF that(1)]) (simp_all add: that(2))
  have s2: "runLoop b ctx e (?p0\<lparr>process_step := stepCreate\<rparr>) l1
      = runLoop b ctx e (?p0\<lparr>process_exporterCID := cid, process_step := stepConnect\<rparr>) l2"
    if "\<not> ctx l1" "createContainer b e l1 = (cid, None, l2)"
    by (subst runLoop_create [where ctx = ctx and log = l1, OF that(1)]) (simp_all add: that(2))
  have s3: "runLoop b ctx e (?p0\<lparr>process_exporterCID := cid, process_step := stepConnect\<rparr>) l2
      = runLoop b ctx e (?p0\<lparr>process_exporterCID := cid, process_step := stepStart\<rparr>) l3"
    if "\<not> ctx l2" "connectToNetwork b e cid l2 = (None, l3)"
    by (subst runLoop_connect [where ctx = ctx and log = l2, OF that(1)]) (simp_all add: that(2))
  have s4: "runLoop b ctx e (?p0\<lparr>process_exporterCID := cid, process_step := stepStart\<rparr>) l3
      = runLoop b ctx e (?p0\<lparr>process_exporterCID := cid, process_step := stepFinished\<rparr>) l4"
    if "\<not> ctx l3" "startContainer b e cid l3 = (None, l4)"
    by (subst runLoop_start [where ctx = ctx and log = l3, OF that(1)]) (simp_all add: that(2))
  have g1: "l1 = [ImagePull (Image e)]" if "pullImage b (Image e) [] = (None, l1)"
    using pullImage_log [of b "Image e" "[]"] that by simp
  have g2: "\<exists>config hostConfig. l2 = l1 @ [ContainerCreate config hostConfig (Name e)]"
    if "createContainer b e l1 = (cid, None, l2)"
    using createContainer_log [OF that] .
  have g3: "l3 = l2 @ [NetworkConnect (promNetwork b) cid]"
    if "connectToNetwork b e cid l2 = (None, l3)"
    using connectToNetwork_log [of b e cid l2] that by simp
  have g4: "l4 = l3 @ [ContainerStart cid]" if "startContainer b e cid l3 = (None, l4)"
    using startContainer_log [of b e cid l3] that by simp
  have c0: "ctx [] \<longrightarrow> RunExporter b ctx e = (None, [])"
    by (simp add: RunExporter_def A)
  have c1: "\<not> ctx [] \<and> pullImage b (Image e) [] = (None, l1) \<and> ctx l1 \<longrightarrow>
        RunExporter b ctx e = (None, [ImagePull (Image e)])"
    using s1 A g1 by auto
  have c2: "\<not> ctx [] \<and> pullImage b (Image e) [] = (None, l1) \<and> \<not> ctx l1
        \<and> createContainer b e l1 = (cid, None, l2) \<and> ctx l2 \<longrightarrow>
        RunExporter b ctx e = (None, l2)
        \<and> (\<exists>config hostConfig.
              l2 = [ImagePull (Image e), ContainerCreate config hostConfig (Name e)])"
    using s1 s2 A g1 g2 by auto
  have c3: "\<not> ctx [] \<and> pullImage b (Image e) [] = (None, l1) \<and> \<not> ctx l1
        \<and> createContainer b e l1 = (cid, None, l2) \<and> \<not> ctx l2
        \<and> connectToNetwork b e cid l2 = (None, l3) \<and> ctx l3 \<longrightarrow>
        RunExporter b ctx e = (None, l3)
        \<and> l3 = l2 @ [NetworkConnect (promNetwork b) cid]
        \<and> (\<forall>c. ContainerStart c \<notin> set l3)"
  proof (intro impI, elim conjE)
    assume h: "\<not> ctx []" "pullImage b (Image e) [] = (None, l1)" "\<not> ctx l1"
      "createContainer b e l1 = (cid, None, l2)" "\<not> ctx l2"
      "connectToNetwork b e cid l2 = (None, l3)" "ctx l3"
    have "RunExporter b ctx e = (None, l3)"
      using s1 [OF h(1,2)] s2 [OF h(3,4)] s3 [OF h(5,6)] A [OF h(7)] by simp
    moreover have "\<forall>c. ContainerStart c \<notin> set l3"
      using g1 [OF h(2)] g2 [OF h(4)] g3 [OF h(6)] by auto
    ultimately show "RunExporter b ctx e = (None, l3)
        \<and> l3 = l2 @ [NetworkConnect (promNetwork b) cid]
        \<and> (\<forall>c. ContainerStart c \<notin> set l3)"
      using g3 [OF h(6)] by simp
  qed
  have c4: "\<not> ctx [] \<and> pullImage b (Image e) [] = (None, l1) \<and> \<not> ctx l1
        \<and> createContainer b e l1 = (cid, None, l2) \<and> \<not> ctx l2
        \<and> connectToNetwork b e cid l2 = (None, l3) \<and> \<not> ctx l3
        \<and> startContainer b e cid l3 = (None, l4) \<and> ctx l4 \<longrightarrow>
        RunExporter b ctx e = (None, l4)
        \<and> l4 = l3 @ [ContainerStart cid]"
  proof (intro impI, elim conjE)
    assume h: "\<not> ctx []" "pullImage b (Image e) [] = (None, l1)" "\<not> ctx l1"
      "createContainer b e l1 = (cid, None, l2)" "\<not> ctx l2"
      "connectToNetwork b e cid l2 = (None, l3)" "\<not> ctx l3"
      "startContainer b e cid l3 = (None, l4)" "ctx l4"
    have "RunExporter b ctx e = (None, l4)"
      using s1 [OF h(1,2)] s2 [OF h(3,4)] s3 [OF h(5,6)] s4 [OF h(7,8)] A [OF h(9)] by simp
    then show "RunExporter b ctx e = (None, l4) \<and> l4 = l3 @ [ContainerStart cid]"
      using g4 [OF h(8)] by simp
  qed
  from A c0 c1 c2 c3 c4 show ?thesis by blast
qed

theorem RunExporter_cancelled_witness:
  "RunExporter \<lparr>cli = fakeClient, promNetwork = ''testnet'', finder = noFinder\<rparr>
       (\<lambda>log. 2 \<le> length log) exporter004 =
    (None,
     [ImagePull ''oliver006/redis_exporter:latest'',
      ContainerCreate
        \<lparr>User = ''1000'', config_Cmd = [''-redis.addr=redis://localhost:6379''],
         config_Image = ''oliver006/redis_exporter:latest'', Env = [''FOO=BAR''],
         config_Labels = [''autoexporter.exported.id'' \<mapsto> ''012dfc9'',
                          ''autoexporter.exported.name'' \<mapsto> ''task-to-export'']\<rparr>
        \<lparr>NetworkMode = ''container:012dfc9'',
         RestartPolicy = \<lparr>policy_Name = ''on-failure'', MaximumRetryCount = 10\<rparr>\<rparr>
        ''exporter004''])"
proof -
  let ?b = "\<lparr>cli = fakeClient, promNetwork = ''testnet'', finder = noFinder\<rparr>"
  let ?ctx = "\<lambda>log::call list. 2 \<le> length log"
  let ?l1 = "[ImagePull ''oliver006/redis_exporter:latest'']"
  let ?l2 = "[ImagePull ''oliver006/redis_exporter:latest'',
      ContainerCreate
        \<lparr>User = ''1000'', config_Cmd = [''-redis.addr=redis://localhost:6379''],
         config_Image = ''oliver006/redis_exporter:latest'', Env = [''FOO=BAR''],
         config_Labels = [''autoexporter.exported.id'' \<mapsto> ''012dfc9'',
                          ''autoexporter.exported.name'' \<mapsto> ''task-to-export'']\<rparr>
        \<lparr>NetworkMode = ''container:012dfc9'',
         RestartPolicy = \<lparr>policy_Name = ''on-failure'', MaximumRetryCount = 10\<rparr>\<rparr>
        ''exporter004'']"
  have h1: "\<not> ?ctx []" by simp
  have h2: "pullImage ?b (Image exporter004) [] = (None, ?l1)"
    by (simp add: pullImage_def fakeClient_def exporter004_def)
  have h3: "\<not> ?ctx ?l1" by simp
  have h4: "createContainer ?b exporter004 ?l1 = (''9d234f'', None, ?l2)"
    by (simp add: createContainer_def fakeClient_def exporter004_def
        LABEL_EXPORTED_ID_def LABEL_EXPORTED_NAME_def)
  have h5: "?ctx ?l2" by simp
  from RunExporter_cancelled [of ?ctx _ ?b exporter004 _ ?l1 "''9d234f''" ?l2,
      THEN conjunct2, THEN conjunct2, THEN conjunct2, THEN conjunct1, rule_format,
      OF conjI [OF h1 conjI [OF h2 conjI [OF h3 conjI [OF h4 h5]]]]]
  show ?thesis by simp
qed

section \<open>Properties of exporter names and of the resolver\<close>

lemma TrimLeft_dropWhile: "TrimLeft s cutset = dropWhile (\<lambda>c. c \<in> set cutset) s"
  by (induction s) simp_all

lemma fold_snoc_entries:
  "fold (\<lambda>(pname, m) exporters. exporters @ [g pname m]) xs acc
     = acc @ map (\<lambda>(pname, m). g pname m) xs"
  by (induction xs arbitrary: acc) auto

lemma resolveExporters_eq:
  "resolveExporters b t log =
     (map (\<lambda>(pname, m). m\<lparr>Name := getExporterName pname (task_Name t)\<rparr>) (fst (finder b t)),
      log @ [FindMatchingExporters t])"
  by (cases "finder b t")
     (simp add: resolveExporters_def
        fold_snoc_entries [where g = "\<lambda>pname m. m\<lparr>Name := getExporterName pname (task_Name t)\<rparr>"])

text \<open>
  Claim C3, as stated, fails: the name has a leading slash, as the container names that
  the Docker API lists have. For the catalog key \<open>redis\<close> and the task \<open>/redis\<close> it is
  \<open>/exporter.redis.redis\<close> (the value \<^verbatim>\<open>TestFindMissingExporters\<close> expects), not
  \<open>exporter.redis.redis\<close>.
\<close>

theorem getExporterName_counterexample:
  "getExporterName ''redis'' ''/redis'' = ''/exporter.redis.redis''
   \<and> getExporterName ''redis'' ''/redis'' \<noteq> ''exporter.'' @ ''redis'' @ ''.'' @ TrimLeft ''/redis'' ''/''"
  by (simp add: getExporterName_def)

text \<open>
  Claim C3, amended. The computed name is \<open>/exporter.\<close>, the catalog key, a dot, and the
  task name without its leading slashes; the names of the resolved exporters are a
  function of the catalog keys the finder returns and of the task name alone.
\<close>

theorem getExporterName_leading_slash:
  "getExporterName k n = ''/exporter.'' @ k @ ''.'' @ dropWhile (\<lambda>c. c = CHR ''/'') n
   \<and> map Name (fst (resolveExporters b t log))
       = map (\<lambda>(k, m). ''/exporter.'' @ k @ ''.'' @ dropWhile (\<lambda>c. c = CHR ''/'') (task_Name t))
           (fst (finder b t))"
  by (simp add: getExporterName_def TrimLeft_dropWhile resolveExporters_eq split_def o_def)

section \<open>Properties of the teardown\<close>

lemma stopExporter_refuse:
  assumes "cli_ContainerInspect (cli b) log (index (container_Labels exporter) LABEL_EXPORTED_ID)
      = Inr exported"
    and "State exported = Some st" and "Running st" and "\<not> force"
  shows "stopExporter b exporter force log =
    (Returns (Some (ErrExportedTaskStillRunning (container_ID exporter)
        (index (container_Labels exporter) LABEL_EXPORTED_ID))),
     log @ [ContainerInspect (index (container_Labels exporter) LABEL_EXPORTED_ID)])"
  using assms by (simp add: stopExporter_def Let_def newErrExportedTaskStillRunning_def)

lemma stopExporter_inspect_error:
  assumes "cli_ContainerInspect (cli b) log (index (container_Labels exporter) LABEL_EXPORTED_ID)
      = Inl err"
    and "\<not> IsErrNotFound err"
  shows "stopExporter b exporter force log =
    (Returns (Some (WithStack err)),
     log @ [ContainerInspect (index (container_Labels exporter) LABEL_EXPORTED_ID)])"
  using assms by (simp add: stopExporter_def Let_def)

lemma stopExporter_proceed:
  assumes "proceeds b exporter force log"
  shows "stopExporter b exporter force log =
    (let exporterCID = container_ID exporter;
         log1 = log @ [ContainerInspect (index (container_Labels exporter) LABEL_EXPORTED_ID)];
         log2 = log1 @ [NetworkDisconnect (promNetwork b) exporterCID force];
         log3 = log2 @ [ContainerStop exporterCID];
         log4 = log3 @ [ContainerRemove exporterCID force]
     in case cli_NetworkDisconnect (cli b) log1 (promNetwork b) exporterCID force of
          Some err \<Rightarrow> (Returns (Some (WithStack err)), log2)
        | None \<Rightarrow>
           (case cli_ContainerStop (cli b) log2 exporterCID of
              Some err \<Rightarrow> (Returns (Some (WithStack err)), log3)
            | None \<Rightarrow>
               (case cli_ContainerRemove (cli b) log3 exporterCID force of
                  Some err \<Rightarrow> (Returns (Some (WithStack err)), log4)
                | None \<Rightarrow> (if Names exporter = [] then Panics else Returns None, log4))))"
  using assms
  by (auto simp: proceeds_def stopExporter_def Let_def
      split: sum.splits option.splits list.splits)

lemma CleanupExporter_single:
  assumes "cli_ContainerList (cli b) log \<lparr>All = False, Filters = [(''name'', exporterName)]\<rparr>
      = Inr [c]"
  shows "CleanupExporter b exporterName force log =
    stopExporter b c force
      (log @ [ContainerList \<lparr>All = False, Filters = [(''name'', exporterName)]\<rparr>])"
  using assms by (simp add: CleanupExporter_def Let_def)

text \<open>
  Claim C4. \<open>exportedCID\<close> is the sidecar's "exported id" label, \<open>exporterCID\<close> its own id.
  When the monitored container is inspected as running and \<^verbatim>\<open>force\<close> is false, the
  teardown fails with the "still running" error built from both ids (its message names
  both) and the inspection is the only call issued. When it is inspected as running and
  \<^verbatim>\<open>force\<close> is true, or the inspection reports not-found, the teardown disconnects the sidecar
  from the monitoring network, then (each call having succeeded) stops it and removes it,
  \<^verbatim>\<open>force\<close> being handed to the removal, and returns \<^verbatim>\<open>nil\<close>. \<^verbatim>\<open>CleanupExporter\<close> applies
  this to the one container that matches the name.
\<close>

theorem stopExporter_still_running:
  fixes b :: DockerBackend and exporter :: Container
  assumes exported: "exportedCID = index (container_Labels exporter) LABEL_EXPORTED_ID"
    and ids: "exporterCID = container_ID exporter"
  shows "(cli_ContainerInspect (cli b) log exportedCID = Inr exported
          \<and> State exported = Some st \<and> Running st \<and> \<not> force \<longrightarrow>
           stopExporter b exporter force log =
             (Returns (Some (ErrExportedTaskStillRunning exporterCID exportedCID)),
              log @ [ContainerInspect exportedCID])
         \<and> errorMsg (ErrExportedTaskStillRunning exporterCID exportedCID)
             = ''Exporter \"'' @ exporterCID
               @ ''\" can't be stopped, exported container \"'' @ exportedCID
               @ ''\" still running.'')
       \<and> ((cli_ContainerInspect (cli b) log exportedCID = Inr exported
            \<and> State exported = Some st \<and> Running st \<and> force)
          \<or> (cli_ContainerInspect (cli b) log exportedCID = Inl err \<and> IsErrNotFound err) \<longrightarrow>
           prefix (log @ [ContainerInspect exportedCID,
                          NetworkDisconnect (promNetwork b) exporterCID force])
                  (snd (stopExporter b exporter force log))
         \<and> (cli_NetworkDisconnect (cli b) (log @ [ContainerInspect exportedCID])
                (promNetwork b) exporterCID force = None
            \<and> cli_ContainerStop (cli b)
                (log @ [ContainerInspect exportedCID,
                        NetworkDisconnect (promNetwork b) exporterCID force])
                exporterCID = None \<longrightarrow>
              snd (stopExporter b exporter force log)
                = log @ [ContainerInspect exportedCID,
                         NetworkDisconnect (promNetwork b) exporterCID force,
                         ContainerStop exporterCID,
                         ContainerRemove exporterCID force]
            \<and> (cli_ContainerRemove (cli b)
                  (log @ [ContainerInspect exportedCID,
                          NetworkDisconnect (promNetwork b) exporterCID force,
                          ContainerStop exporterCID])
                  exporterCID force = None \<and> Names exporter \<noteq> [] \<longrightarrow>
                fst (stopExporter b exporter force log) = Returns None)))
       \<and> (cli_ContainerList (cli b) log0 \<lparr>All = False, Filters = [(''name'', exporterName)]\<rparr>
            = Inr [exporter] \<longrightarrow>
           CleanupExporter b exporterName force log0 =
             stopExporter b exporter force
               (log0 @ [ContainerList \<lparr>All = False, Filters = [(''name'', exporterName)]\<rparr>]))"
proof -
  let ?inspect = "cli_ContainerInspect (cli b) log exportedCID"
  let ?go = "(?inspect = Inr exported \<and> State exported = Some st \<and> Running st \<and> force)
          \<or> (?inspect = Inl err \<and> IsErrNotFound err)"
  have refuse: "stopExporter b exporter force log =
             (Returns (Some (ErrExportedTaskStillRunning exporterCID exportedCID)),
              log @ [ContainerInspect exportedCID])"
    if "?inspect = Inr exported" "State exported = Some st" "Running st" "\<not> force"
    using stopExporter_refuse [of b log exporter exported st force] that exported ids by simp
  have msg: "errorMsg (ErrExportedTaskStillRunning exporterCID exportedCID)
             = ''Exporter \"'' @ exporterCID
               @ ''\" can't be stopped, exported container \"'' @ exportedCID
               @ ''\" still running.''"
    by simp
  have go: "proceeds b exporter force log" if ?go
    using that exported by (auto simp: proceeds_def)
  note run = stopExporter_proceed [OF go, folded exported ids]
  have pre: "prefix (log @ [ContainerInspect exportedCID,
                          NetworkDisconnect (promNetwork b) exporterCID force])
                  (snd (stopExporter b exporter force log))" if ?go
    unfolding run [OF that] by (simp add: Let_def split: option.splits)
  have full: "snd (stopExporter b exporter force log)
                = log @ [ContainerInspect exportedCID,
                         NetworkDisconnect (promNetwork b) exporterCID force,
                         ContainerStop exporterCID,
                         ContainerRemove exporterCID force]"
    if ?go "cli_NetworkDisconnect (cli b) (log @ [ContainerInspect exportedCID])
                (promNetwork b) exporterCID force = None"
      "cli_ContainerStop (cli b)
                (log @ [ContainerInspect exportedCID,
                        NetworkDisconnect (promNetwork b) exporterCID force])
                exporterCID = None"
    unfolding run [OF that(1)] using that(2,3) by (simp add: Let_def split: option.splits)
  have nil: "fst (stopExporter b exporter force log) = Returns None"
    if ?go "cli_NetworkDisconnect (cli b) (log @ [ContainerInspect exportedCID])
                (promNetwork b) exporterCID force = None"
      "cli_ContainerStop (cli b)
                (log @ [ContainerInspect exportedCID,
                        NetworkDisconnect (promNetwork b) exporterCID force])
                exporterCID = None"
      "cli_ContainerRemove (cli b)
                  (log @ [ContainerInspect exportedCID,
                          NetworkDisconnect (promNetwork b) exporterCID force,
                          ContainerStop exporterCID])
                  exporterCID force = None" "Names exporter \<noteq> []"
    unfolding run [OF that(1)] using that(2-5) by (simp add: Let_def)
  note single = CleanupExporter_single [of b log0 exporterName exporter force]
  show ?thesis
    apply (intro conjI impI)
    subgoal using refuse by blast
    subgoal by (rule msg)
    subgoal using pre by blast
    subgoal using full by blast
    subgoal using nil by blast
    subgoal using single by blast
    done
qed

theorem stopExporter_still_running_witness:
  "stopExporter \<lparr>cli = runningClient, promNetwork = ''testnet'', finder = noFinder\<rparr>
      exporter001 False []
     = (Returns (Some (ErrExportedTaskStillRunning ''exporter-cid'' ''exported-task-cid'')),
        [ContainerInspect ''exported-task-cid''])
   \<and> stopExporter \<lparr>cli = runningClient, promNetwork = ''testnet'', finder = noFinder\<rparr>
      exporter001 True []
     = (Returns None,
        [ContainerInspect ''exported-task-cid'',
         NetworkDisconnect ''testnet'' ''exporter-cid'' True,
         ContainerStop ''exporter-cid'',
         ContainerRemove ''exporter-cid'' True])
   \<and> CleanupExporter
        \<lparr>cli = runningClient\<lparr>cli_ContainerList := (\<lambda>log opts. Inr [exporter001])\<rparr>,
         promNetwork = ''testnet'', finder = noFinder\<rparr>
        ''exporter001'' False []
     = (Returns (Some (ErrExportedTaskStillRunning ''exporter-cid'' ''exported-task-cid'')),
        [ContainerList \<lparr>All = False, Filters = [(''name'', ''exporter001'')]\<rparr>,
         ContainerInspect ''exported-task-cid''])"
proof -
  let ?b = "\<lparr>cli = runningClient, promNetwork = ''testnet'', finder = noFinder\<rparr>"
  let ?b' = "\<lparr>cli = runningClient\<lparr>cli_ContainerList := (\<lambda>log opts. Inr [exporter001])\<rparr>,
         promNetwork = ''testnet'', finder = noFinder\<rparr>"
  let ?list = "ContainerList \<lparr>All = False, Filters = [(''name'', ''exporter001'')]\<rparr>"
  let ?json = "\<lparr>json_ID = ''exported-task-cid'', json_Name = [],
      State = Some \<lparr>Running = True\<rparr>, json_Labels = Map.empty\<rparr>"
  have e1: "''exported-task-cid'' = index (container_Labels exporter001) LABEL_EXPORTED_ID"
    by (simp add: exporter001_def index_def LABEL_EXPORTED_ID_def)
  have e2: "''exporter-cid'' = container_ID exporter001"
    by (simp add: exporter001_def)
  have i: "cli_ContainerInspect (cli ?b) [] ''exported-task-cid'' = Inr ?json"
    by (simp add: runningClient_def)
  have i': "cli_ContainerInspect (cli ?b') [?list] ''exported-task-cid'' = Inr ?json"
    by (simp add: runningClient_def)
  have l': "cli_ContainerList (cli ?b') [] \<lparr>All = False, Filters = [(''name'', ''exporter001'')]\<rparr>
      = Inr [exporter001]"
    by simp
  have st: "State ?json = Some \<lparr>Running = True\<rparr>" "Running \<lparr>Running = True\<rparr>"
    by simp_all
  have ok: "cli_NetworkDisconnect (cli ?b) l n c f = None"
    "cli_ContainerStop (cli ?b) l c = None" "cli_ContainerRemove (cli ?b) l c f = None"
    for l n c f
    by (simp_all add: runningClient_def fakeClient_def)
  have nm: "Names exporter001 \<noteq> []" by (simp add: exporter001_def)
  note t = stopExporter_still_running [OF e1 e2, of ?b "[]" ?json "\<lparr>Running = True\<rparr>"]
  note t' = stopExporter_still_running [OF e1 e2, of ?b' "[?list]" ?json "\<lparr>Running = True\<rparr>" False
      _ "[]" "''exporter001''"]
  have a: "stopExporter ?b exporter001 False []
     = (Returns (Some (ErrExportedTaskStillRunning ''exporter-cid'' ''exported-task-cid'')),
        [ContainerInspect ''exported-task-cid''])"
    using t [of False, THEN conjunct1] i st by simp
  have "snd (stopExporter ?b exporter001 True [])
     = [ContainerInspect ''exported-task-cid'',
         NetworkDisconnect ''testnet'' ''exporter-cid'' True,
         ContainerStop ''exporter-cid'',
         ContainerRemove ''exporter-cid'' True]"
    and "fst (stopExporter ?b exporter001 True []) = Returns None"
    using t [of True, THEN conjunct2, THEN conjunct1] i st ok nm by simp_all
  moreover have "CleanupExporter ?b' ''exporter001'' False []
     = (Returns (Some (ErrExportedTaskStillRunning ''exporter-cid'' ''exported-task-cid'')),
        [?list, ContainerInspect ''exported-task-cid''])"
    using t' [THEN conjunct1] t' [THEN conjunct2, THEN conjunct2] i' l' st by simp
  ultimately show ?thesis using a by (simp add: prod_eq_iff)
qed

lemma refusal_simps [simp]:
  "refusal (Returns (Some e)) = IsErrExportedTaskStillRunning e"
  "refusal (Returns None) = False"
  "refusal Panics = False"
  by (simp_all add: refusal_def)

lemma cleanupLoop_all:
  "sweep b force es log = (rs, log') \<Longrightarrow> recoverable rs \<Longrightarrow>
   cleanupLoop b force es failed log = (aggregate (failed @ refused rs), log')"
proof (induction es arbitrary: rs log failed)
  case Nil
  then show ?case by (simp add: aggregate_def refused_def)
next
  case (Cons e es)
  obtain r log1 where st: "stopExporter b e force log = (r, log1)"
    by (cases "stopExporter b e force log")
  obtain rs' where sw: "sweep b force es log1 = (rs', log')" and rs: "rs = (e, r) # rs'"
    using Cons.prems(1) st by (auto split: prod.splits)
  from Cons.prems(2) rs have rec: "recoverable rs'"
    and r: "r = Returns None \<or> (refusal r \<and> Names e \<noteq> [])"
    by (simp_all add: recoverable_def)
  note IH = Cons.IH [OF sw rec]
  from r show ?case
  proof
    assume "r = Returns None"
    then show ?thesis using st IH [of failed] rs by (simp add: refused_def)
  next
    assume a: "refusal r \<and> Names e \<noteq> []"
    then obtain err where err: "r = Returns (Some err)" "IsErrExportedTaskStillRunning err"
      by (cases r) (auto simp: refusal_def split: option.splits)
    from a obtain n ns where n: "Names e = n # ns" by (cases "Names e") auto
    show ?thesis
      using st err n IH [of "failed @ [n]"] rs by (simp add: refused_def)
  qed
qed

lemma stopExporter_log:
  "\<exists>more. snd (stopExporter b e force log)
     = log @ ContainerInspect (index (container_Labels e) LABEL_EXPORTED_ID) # more"
  by (simp add: stopExporter_def Let_def split: sum.splits option.splits list.splits)

lemma sweep_log:
  "sweep b force es log = (rs, log') \<Longrightarrow>
   set log \<subseteq> set log'
   \<and> (\<forall>x\<in>set es. ContainerInspect (index (container_Labels x) LABEL_EXPORTED_ID) \<in> set log')"
proof (induction es arbitrary: rs log)
  case Nil
  then show ?case by simp
next
  case (Cons e es)
  obtain r log1 where st: "stopExporter b e force log = (r, log1)"
    by (cases "stopExporter b e force log")
  obtain rs' where sw: "sweep b force es log1 = (rs', log')"
    using Cons.prems st by (auto split: prod.splits)
  from stopExporter_log [of b e force log] st obtain more where
    "log1 = log @ ContainerInspect (index (container_Labels e) LABEL_EXPORTED_ID) # more"
    by auto
  with Cons.IH [OF sw] show ?case by auto
qed

lemma cleanupLoop_abort:
  "sweep b force es1 log = (rs, log1) \<Longrightarrow> recoverable rs \<Longrightarrow>
   stopExporter b e force log1 = (Returns (Some err), log2) \<Longrightarrow>
   \<not> IsErrExportedTaskStillRunning err \<Longrightarrow>
   cleanupLoop b force (es1 @ e # es2) failed log = (Returns (Some err), log2)"
proof (induction es1 arbitrary: rs log failed)
  case Nil
  then show ?case by simp
next
  case (Cons x es1)
  obtain r l where st: "stopExporter b x force log = (r, l)"
    by (cases "stopExporter b x force log")
  obtain rs' where sw: "sweep b force es1 l = (rs', log1)" and rs: "rs = (x, r) # rs'"
    using Cons.prems(1) st by (auto split: prod.splits)
  from Cons.prems(2) rs have rec: "recoverable rs'"
    and r: "r = Returns None \<or> (refusal r \<and> Names x \<noteq> [])"
    by (simp_all add: recoverable_def)
  note IH = Cons.IH [OF sw rec Cons.prems(3,4)]
  from r show ?case
  proof
    assume "r = Returns None"
    then show ?thesis using st IH [of failed] by simp
  next
    assume a: "refusal r \<and> Names x \<noteq> []"
    then obtain err' where err: "r = Returns (Some err')" "IsErrExportedTaskStillRunning err'"
      by (cases r) (auto simp: refusal_def split: option.splits)
    from a obtain n ns where n: "Names x = n # ns" by (cases "Names x") auto
    show ?thesis
      using st err n IH [of "failed @ [n]"] by simp
  qed
qed

text \<open>
  Claim C5. \<^verbatim>\<open>CleanupExporters\<close> lists the sidecars and tears them down in turn. When every
  teardown returns \<^verbatim>\<open>nil\<close> or a "still running" refusal, all sidecars are processed
  (each one is inspected, and the calls issued are those of tearing down every one of
  them), and the result is \<^verbatim>\<open>nil\<close> when none was refused, otherwise the error
  \<open>failed to cleanup\<close> followed by the names of exactly the refused sidecars. When
  a teardown returns any other error, after teardowns that returned \<^verbatim>\<open>nil\<close> or a refusal, the
  operation returns that error at once: the calls end with those of the failed teardown.
\<close>

theorem CleanupExporters_aggregate:
  assumes list: "cli_ContainerList (cli b) log
        \<lparr>All = True, Filters = [(''label'', ''autoexporter.exported.id'')]\<rparr> = Inr exporters"
    and log1: "log1 = log @ [ContainerList
        \<lparr>All = True, Filters = [(''label'', ''autoexporter.exported.id'')]\<rparr>]"
  shows "(sweep b force exporters log1 = (rs, log2) \<and> recoverable rs \<longrightarrow>
            CleanupExporters b force log =
              (if refused rs = [] then Returns None
               else Returns (Some (Error (''failed to cleanup '' @ Join (refused rs) '', ''))),
               log2)
          \<and> (\<forall>x\<in>set exporters.
                ContainerInspect (index (container_Labels x) LABEL_EXPORTED_ID) \<in> set log2))
       \<and> (exporters = es1 @ e # es2 \<and> sweep b force es1 log1 = (rs, log2) \<and> recoverable rs
          \<and> stopExporter b e force log2 = (Returns (Some err), log3)
          \<and> \<not> IsErrExportedTaskStillRunning err \<longrightarrow>
            CleanupExporters b force log = (Returns (Some err), log3))"
proof -
  have run: "CleanupExporters b force log = cleanupLoop b force exporters [] log1"
    using list log1 by (simp add: CleanupExporters_def Let_def LABEL_EXPORTED_ID_def)
  show ?thesis
    unfolding run
    using cleanupLoop_all [of b force exporters log1 rs log2 "[]"]
      cleanupLoop_abort [of b force es1 log1 rs log2 e err log3 es2 "[]"]
      sweep_log [of b force exporters log1 rs log2]
    by (auto simp: aggregate_def)
qed

theorem CleanupExporters_aggregate_witness:
  "CleanupExporters \<lparr>cli = threeSidecars (NotFoundError ''fake not found error''),
                      promNetwork = ''testnet'', finder = noFinder\<rparr> False []
     = (Returns (Some (Error ''failed to cleanup exporter001, exporter003'')),
        [ContainerList \<lparr>All = True, Filters = [(''label'', ''autoexporter.exported.id'')]\<rparr>,
         ContainerInspect ''exported-task001-cid'',
         ContainerInspect ''exported-task002-cid'',
         NetworkDisconnect ''testnet'' ''exporter002-cid'' False,
         ContainerStop ''exporter002-cid'',
         ContainerRemove ''exporter002-cid'' False,
         ContainerInspect ''exported-task003-cid''])
   \<and> CleanupExporters \<lparr>cli = threeSidecars (Error ''error inspecting container''),
                      promNetwork = ''testnet'', finder = noFinder\<rparr> False []
     = (Returns (Some (WithStack (Error ''error inspecting container''))),
        [ContainerList \<lparr>All = True, Filters = [(''label'', ''autoexporter.exported.id'')]\<rparr>,
         ContainerInspect ''exported-task001-cid'',
         ContainerInspect ''exported-task002-cid''])"
proof -
  let ?b1 = "\<lparr>cli = threeSidecars (NotFoundError ''fake not found error''),
                      promNetwork = ''testnet'', finder = noFinder\<rparr>"
  let ?b2 = "\<lparr>cli = threeSidecars (Error ''error inspecting container''),
                      promNetwork = ''testnet'', finder = noFinder\<rparr>"
  let ?opts = "\<lparr>All = True, Filters = [(''label'', ''autoexporter.exported.id'')]\<rparr>"
  let ?still = "\<lambda>n. Returns (Some (ErrExportedTaskStillRunning
      (''exporter'' @ n @ ''-cid'') (''exported-task'' @ n @ ''-cid'')))"
  let ?rs = "[(sidecar ''001'', ?still ''001''), (sidecar ''002'', Returns None),
      (sidecar ''003'', ?still ''003'')]"
  let ?log2 = "[ContainerList ?opts,
         ContainerInspect ''exported-task001-cid'',
         ContainerInspect ''exported-task002-cid'',
         NetworkDisconnect ''testnet'' ''exporter002-cid'' False,
         ContainerStop ''exporter002-cid'',
         ContainerRemove ''exporter002-cid'' False,
         ContainerInspect ''exported-task003-cid'']"
  note defs = threeSidecars_def runningClient_def fakeClient_def sidecar_def stopExporter_def
    index_def LABEL_EXPORTED_ID_def newErrExportedTaskStillRunning_def Let_def
  have l1: "cli_ContainerList (cli ?b1) [] ?opts
      = Inr [sidecar ''001'', sidecar ''002'', sidecar ''003'']"
    by (simp add: threeSidecars_def)
  have l2: "cli_ContainerList (cli ?b2) [] ?opts
      = Inr ([sidecar ''001''] @ sidecar ''002'' # [sidecar ''003''])"
    by (simp add: threeSidecars_def)
  have lg: "[ContainerList ?opts] = [] @ [ContainerList ?opts]" by simp
  have s1: "sweep ?b1 False [sidecar ''001'', sidecar ''002'', sidecar ''003''] [ContainerList ?opts]
      = (?rs, ?log2)"
    by (simp add: defs)
  have r1: "recoverable ?rs" by (simp add: recoverable_def sidecar_def)
  have f1: "refused ?rs = [''exporter001'', ''exporter003'']"
    by (simp add: refused_def sidecar_def)
  have s2: "sweep ?b2 False [sidecar ''001''] [ContainerList ?opts]
      = ([(sidecar ''001'', ?still ''001'')],
         [ContainerList ?opts, ContainerInspect ''exported-task001-cid''])"
    by (simp add: defs)
  have r2: "recoverable [(sidecar ''001'', ?still ''001'')]"
    by (simp add: recoverable_def sidecar_def)
  have a2: "stopExporter ?b2 (sidecar ''002'') False
        [ContainerList ?opts, ContainerInspect ''exported-task001-cid'']
      = (Returns (Some (WithStack (Error ''error inspecting container''))),
         [ContainerList ?opts, ContainerInspect ''exported-task001-cid'',
          ContainerInspect ''exported-task002-cid''])"
    by (simp add: defs)
  have n2: "\<not> IsErrExportedTaskStillRunning (WithStack (Error ''error inspecting container''))"
    by simp
  from CleanupExporters_aggregate [OF l1 lg, THEN conjunct1, rule_format,
      OF conjI [OF s1 r1], THEN conjunct1]
  have A: "CleanupExporters ?b1 False []
     = (Returns (Some (Error ''failed to cleanup exporter001, exporter003'')), ?log2)"
    unfolding f1 by simp
  from CleanupExporters_aggregate [OF l2 lg, THEN conjunct2, rule_format,
      OF conjI [OF refl conjI [OF s2 conjI [OF r2 conjI [OF a2 n2]]]]]
  have B: "CleanupExporters ?b2 False []
     = (Returns (Some (WithStack (Error ''error inspecting container''))),
        [ContainerList ?opts, ContainerInspect ''exported-task001-cid'',
         ContainerInspect ''exported-task002-cid''])" by simp
  from A B show ?thesis by simp
qed

section \<open>Properties of the missing-exporter detection\<close>

lemma fold_names_inner:
  "(fold (\<lambda>name names. names(name \<mapsto> name)) ns m) x = None \<longleftrightarrow> m x = None \<and> x \<notin> set ns"
  by (induction ns arbitrary: m) auto

lemma fold_names:
  "(fold (\<lambda>container names.
            fold (\<lambda>name names. names(name \<mapsto> name)) (Names container) names) cs m) x = None
   \<longleftrightarrow> m x = None \<and> x \<notin> takenNames cs"
  by (induction cs arbitrary: m) (auto simp: takenNames_def fold_names_inner)

lemma fold_keep:
  "fold (\<lambda>exporter missing. if P exporter then missing @ [exporter] else missing) es missing
     = missing @ filter P es"
  by (induction es arbitrary: missing) simp_all

lemma missingLoop_eq:
  assumes "\<forall>c\<in>set cs. \<not> isSidecar c \<longrightarrow> Names c \<noteq> []"
  shows "missingLoop b containerNames cs missing log =
    (Returns (missing @ concat (map (\<lambda>c. filter (\<lambda>e. containerNames (Name e) = None)
                                         (fst (resolveExporters b (taskOf c) [])))
                                  (filter (\<lambda>c. \<not> isSidecar c) cs)), None),
     log @ map (\<lambda>c. FindMatchingExporters (taskOf c)) (filter (\<lambda>c. \<not> isSidecar c) cs))"
  using assms
proof (induction cs arbitrary: missing log)
  case Nil
  then show ?case by simp
next
  case (Cons c cs)
  show ?case
  proof (cases "isSidecar c")
    case True
    with Cons show ?thesis by (simp add: isSidecar_def)
  next
    case False
    with Cons.prems obtain n ns where n: "Names c = n # ns" by (cases "Names c") auto
    then have t: "\<lparr>task_ID = container_ID c, task_Name = n, task_Labels = container_Labels c\<rparr>
        = taskOf c" by (simp add: taskOf_def)
    have r: "resolveExporters b (taskOf c) log
        = (fst (resolveExporters b (taskOf c) []), log @ [FindMatchingExporters (taskOf c)])"
      by (simp add: resolveExporters_eq)
    from Cons.prems have rest: "\<forall>c\<in>set cs. \<not> isSidecar c \<longrightarrow> Names c \<noteq> []" by simp
    from False have lab: "container_Labels c LABEL_EXPORTED_NAME = None"
      by (simp add: isSidecar_def)
    show ?thesis
      using False Cons.IH [OF rest]
      by (simp add: lab n t r fold_keep)
  qed
qed

text \<open>
  Claim C6. When the listing succeeds (and every container without the bookkeeping label
  has a name), \<^verbatim>\<open>FindMissingExporters\<close> asks the finder for exactly the listed containers
  that do not carry the label \<open>autoexporter.exported.name\<close>, in order, never for one that
  carries it; and it returns, for these containers in order, exactly their resolved
  exporters whose computed name is not a name of any listed container.
\<close>

theorem FindMissingExporters_report:
  assumes list: "cli_ContainerList (cli b) log \<lparr>All = False, Filters = []\<rparr> = Inr containers"
    and named: "\<forall>c\<in>set containers.
        container_Labels c ''autoexporter.exported.name'' = None \<longrightarrow> Names c \<noteq> []"
    and monitored: "monitored =
        filter (\<lambda>c. container_Labels c ''autoexporter.exported.name'' = None) containers"
  shows "FindMissingExporters b log =
    (Returns
       (concat (map (\<lambda>c. filter (\<lambda>e. Name e \<notin> (\<Union>c\<in>set containers. set (Names c)))
                            (fst (resolveExporters b
                               \<lparr>task_ID = container_ID c, task_Name = hd (Names c),
                                task_Labels = container_Labels c\<rparr> [])))
                    monitored),
        None),
     log @ ContainerList \<lparr>All = False, Filters = []\<rparr>
         # map (\<lambda>c. FindMatchingExporters
                      \<lparr>task_ID = container_ID c, task_Name = hd (Names c),
                       task_Labels = container_Labels c\<rparr>)
               monitored)"
proof -
  have side: "(\<lambda>c. \<not> isSidecar c)
      = (\<lambda>c. container_Labels c ''autoexporter.exported.name'' = None)"
    by (simp add: isSidecar_def LABEL_EXPORTED_NAME_def fun_eq_iff)
  have named': "\<forall>c\<in>set containers. \<not> isSidecar c \<longrightarrow> Names c \<noteq> []"
    using named by (simp add: isSidecar_def LABEL_EXPORTED_NAME_def)
  show ?thesis
    using list
    by (simp add: FindMissingExporters_def Let_def missingLoop_eq [OF named'] fold_names
        side monitored taskOf_def [abs_def] takenNames_def)
qed

theorem FindMissingExporters_report_witness:
  "FindMissingExporters
     \<lparr>cli = fakeClient\<lparr>cli_ContainerList := (\<lambda>log opts. Inr listedContainers)\<rparr>,
      promNetwork = ''testnet'', finder = testFinder\<rparr> []
   = (Returns
        ([\<lparr>Name = ''/exporter.redis.redis'', ExporterType = ''redis'',
           Image = ''oliver006/redis_exporter:v0.25.0'', Cmd = [], EnvVars = [],
           Port = ''9121'',
           ExportedTask = \<lparr>task_ID = ''exported-task002-cid'', task_Name = ''/redis'',
                            task_Labels = Map.empty\<rparr>\<rparr>],
         None),
      [ContainerList \<lparr>All = False, Filters = []\<rparr>,
       FindMatchingExporters \<lparr>task_ID = ''exported-task001-cid'',
                              task_Name = ''/exported-task001'', task_Labels = Map.empty\<rparr>,
       FindMatchingExporters \<lparr>task_ID = ''exported-task002-cid'',
                              task_Name = ''/redis'', task_Labels = Map.empty\<rparr>])"
proof -
  let ?b = "\<lparr>cli = fakeClient\<lparr>cli_ContainerList := (\<lambda>log opts. Inr listedContainers)\<rparr>,
      promNetwork = ''testnet'', finder = testFinder\<rparr>"
  have l: "cli_ContainerList (cli ?b) [] \<lparr>All = False, Filters = []\<rparr> = Inr listedContainers"
    by simp
  have n: "\<forall>c\<in>set listedContainers.
        container_Labels c ''autoexporter.exported.name'' = None \<longrightarrow> Names c \<noteq> []"
    by (simp add: listedContainers_def)
  from FindMissingExporters_report [OF l n refl]
  show ?thesis
    by (simp add: listedContainers_def resolveExporters_def testFinder_def getExporterName_def)
qed

section \<open>The explicit exporter-type label\<close>

text \<open>
  Claim C8, as stated, fails on the resolver of the Docker backend: the block of
  \<^verbatim>\<open>resolveExporters\<close> that read the label is commented out. A task labelled
  \<open>autoexporter.exporter = redis\<close> that the catalog matches to \<open>type\<close> gets the exporter
  \<open>type\<close>, by catalog pattern matching.
\<close>

theorem explicit_label_counterexample:
  "task_Labels labelledTask LABEL_EXPORTER = Some ''redis''
   \<and> resolveExporters \<lparr>cli = fakeClient, promNetwork = ''testnet'', finder = testFinder\<rparr>
        labelledTask []
     = ([\<lparr>Name = ''/exporter.type.db'', ExporterType = ''type'', Image = ''some/image'',
          Cmd = [], EnvVars = [], Port = ''8080'', ExportedTask = labelledTask\<rparr>],
        [FindMatchingExporters labelledTask])"
  by (simp add: labelledTask_def LABEL_EXPORTER_def resolveExporters_def testFinder_def
      getExporterName_def)

text \<open>
  Claim C8, amended. \<^verbatim>\<open>resolveExporters\<close> does not read the label: for every task it
  returns the catalog matches of the finder, renamed, and no error. The event handler
  \<^verbatim>\<open>handleContainerStart\<close> renders the label of the inspected container: a rendering
  failure is returned and no exporter is run; a rendered string that is not empty is the
  sole exporter name, the catalog is not asked for a match, and the exporter looked up is
  run; a failed lookup runs no exporter and is returned as an error unless it is the
  not-found error, after which the handler returns \<^verbatim>\<open>nil\<close>; an empty rendered string falls
  through to catalog pattern matching.
\<close>

theorem explicit_label_handling:
  "resolveExporters b t log =
     (map (\<lambda>(pname, m). m\<lparr>Name := getExporterName pname (task_Name t)\<rparr>) (fst (finder b t)),
      log @ [FindMatchingExporters t])
   \<and> (inspect d cid = Inr container \<longrightarrow>
        (readLabel d container (LABEL_EXPORTER_NAME d) = Inl err \<longrightarrow>
           handleContainerStart d cid net = (Some err, [InspectContainer cid]))
      \<and> (readLabel d container (LABEL_EXPORTER_NAME d) = Inr rendered \<and> rendered \<noteq> [] \<longrightarrow>
           (fromPredefinedExporter d rendered net container = Inr exporter \<longrightarrow>
              handleContainerStart d cid net =
                (None, [InspectContainer cid, FromPredefinedExporter rendered net,
                        RunExporterFor exporter]))
         \<and> (fromPredefinedExporter d rendered net container = Inl err \<longrightarrow>
              handleContainerStart d cid net =
                (if IsErrPredefinedExporterNotFound d err then None else Some err,
                 [InspectContainer cid, FromPredefinedExporter rendered net])))
      \<and> (readLabel d container (LABEL_EXPORTER_NAME d) = Inr [] \<longrightarrow>
           prefix [InspectContainer cid, FindMatchingExporter (json_Name container)]
             (snd (handleContainerStart d cid net))))"
  by (auto simp: resolveExporters_eq handleContainerStart_def Let_def split: sum.splits)

theorem explicit_label_handling_witness:
  "handleContainerStart literalTemplates ''0a1b2c'' ''testnet''
     = (None, [InspectContainer ''0a1b2c'', FromPredefinedExporter ''redis'' ''testnet'',
               RunExporterFor exporter004])"
proof -
  have i: "inspect literalTemplates ''0a1b2c'' = Inr labelledContainer"
    by (simp add: literalTemplates_def)
  have r: "readLabel literalTemplates labelledContainer (LABEL_EXPORTER_NAME literalTemplates)
      = Inr ''redis'' \<and> ''redis'' \<noteq> []"
    by (simp add: readLabel_def renderTpl_def literalTemplates_def labelledContainer_def index_def)
  have f: "fromPredefinedExporter literalTemplates ''redis'' ''testnet'' labelledContainer
      = Inr exporter004"
    by (simp add: literalTemplates_def)
  from explicit_label_handling [of _ _ _ literalTemplates "''0a1b2c''" labelledContainer _
      "''testnet''" "''redis''" exporter004,
      THEN conjunct2, rule_format, OF i, THEN conjunct2, THEN conjunct1, rule_format, OF r,
      THEN conjunct1, rule_format, OF f]
  show ?thesis .
qed

end
